theory Spec2Isabelle
  imports Complex_Main
begin

section \<open>JavaScript values, errors and strings\<close>

text \<open>
  The backend is Google Apps Script (JavaScript). Its dynamically typed values are
  modelled by \<open>jsval\<close>; a thrown exception is a value of \<open>error\<close> carrying the
  message of the \<^verbatim>\<open>Error\<close> object, and a function that may throw returns
  \<open>error + 'a\<close> with \<open>Inl\<close> for the exception.

  Strings are \<open>string\<close>: one \<open>char\<close> per UTF-16 code unit, restricted to the code
  units U+0000..U+00FF (Latin-1), which covers every literal of the source that a
  definition below uses. Numbers are integers unless a definition says otherwise.
\<close>

datatype jsval =
    JUndef
  | JNull
  | JBool bool
  | JNum int
  | JStr string
  | JArr "jsval list"
  | JObj "(string \<times> jsval) list"

datatype error = Error string | TypeError string | RangeError string | SyntaxError string

fun error_message :: "error \<Rightarrow> string" where
  \<comment> \<open>\<^verbatim>\<open>error.message\<close>\<close>
  "error_message (Error m) = m"
| "error_message (TypeError m) = m"
| "error_message (RangeError m) = m"
| "error_message (SyntaxError m) = m"

text \<open>JavaScript truthiness (\<^verbatim>\<open>!x\<close>, \<^verbatim>\<open>x && y\<close>, \<^verbatim>\<open>x || y\<close>, \<^verbatim>\<open>if (x)\<close>).\<close>

fun truthy :: "jsval \<Rightarrow> bool" where
  "truthy JUndef = False"
| "truthy JNull = False"
| "truthy (JBool b) = b"
| "truthy (JNum n) = (n \<noteq> 0)"
| "truthy (JStr s) = (s \<noteq> [])"
| "truthy (JArr xs) = True"
| "truthy (JObj kvs) = True"

definition js_or :: "jsval \<Rightarrow> jsval \<Rightarrow> jsval" where
  \<comment> \<open>\<^verbatim>\<open>a || b\<close>\<close>
  "js_or a b = (if truthy a then a else b)"

definition code :: "char \<Rightarrow> nat" where
  \<comment> \<open>the code unit of a character\<close>
  "code c = of_char c"

definition is_digit :: "char \<Rightarrow> bool" where
  \<comment> \<open>\<^verbatim>\<open>\d\<close>, that is \<^verbatim>\<open>[0-9]\<close>\<close>
  "is_digit c = (48 \<le> code c \<and> code c \<le> 57)"

definition digit_val :: "char \<Rightarrow> int" where
  "digit_val c = int (code c) - 48"

text \<open>
  \<^verbatim>\<open>Number(s)\<close> on a string, for the strings the time parser meets: the empty string is
  0, a run of decimal digits is its value, anything else is \<^verbatim>\<open>NaN\<close> (\<open>None\<close>).
  Signs, fractions, exponents, radix prefixes and surrounding blanks, which
  \<^verbatim>\<open>Number\<close> also accepts, are outside this fragment.
\<close>

definition js_Number :: "string \<Rightarrow> int option" where
  "js_Number s =
     (if list_all is_digit s then Some (foldl (\<lambda>acc c. acc * 10 + digit_val c) 0 s)
      else None)"

text \<open>\<^verbatim>\<open>s.split(c)\<close> for a one-character separator.\<close>

fun split_on :: "char \<Rightarrow> string \<Rightarrow> string list" where
  "split_on c [] = [[]]"
| "split_on c (x # xs) =
     (if x = c then [] # split_on c xs
      else (case split_on c xs of
              [] \<Rightarrow> [[x]]
            | p # ps \<Rightarrow> (x # p) # ps))"

section \<open>Menu service: business hours\<close>

text \<open>
  A \<^verbatim>\<open>Date\<close> as the code reads it: \<^verbatim>\<open>getDay()\<close> (0 = Sunday), \<^verbatim>\<open>getHours()\<close>,
  \<^verbatim>\<open>getMinutes()\<close> and \<^verbatim>\<open>toISOString()\<close>.
\<close>

record jsdate =
  getDay :: nat
  getHours :: nat
  getMinutes :: nat
  toISOString :: string

text \<open>
  One entry of \<^verbatim>\<open>businessHours.schedule\<close>, \<^verbatim>\<open>{open, start, end}\<close>. The default
  schedule of \<^verbatim>\<open>ConfigService.getDefaultBusinessHours\<close> leaves \<^verbatim>\<open>start\<close> and
  \<^verbatim>\<open>end\<close> undefined on closed days, and a configured value may be a number, so both
  are \<open>jsval\<close>.
\<close>

record daySchedule =
  dopen :: bool
  dstart :: jsval
  dend :: jsval

record businessHours =
  schedule :: "nat \<Rightarrow> daySchedule option"
  display :: string
  timezone :: string

text \<open>
  \<^verbatim>\<open>
  parseTime(timeString) {
    const [hours, minutes] = timeString.split(':').map(Number);
    return hours * 60 + minutes;
  }
  \<close>
  A value that is not a string has no \<^verbatim>\<open>split\<close>: the call throws. A missing or
  non-numeric part makes the result \<^verbatim>\<open>NaN\<close> (\<open>None\<close>).
\<close>

definition parseTime :: "jsval \<Rightarrow> error + int option" where
  "parseTime timeString =
     (case timeString of
        JStr s \<Rightarrow>
          Inr (case map js_Number (split_on CHR '':'' s) of
                 Some hours # Some minutes # _ \<Rightarrow> Some (hours * 60 + minutes)
               | _ \<Rightarrow> None)
      | _ \<Rightarrow> Inl (TypeError ''timeString.split is not a function''))"

text \<open>Comparisons with \<^verbatim>\<open>NaN\<close> are false.\<close>

definition num_ge :: "int \<Rightarrow> int option \<Rightarrow> bool" where
  "num_ge a b = (case b of None \<Rightarrow> False | Some y \<Rightarrow> a \<ge> y)"

definition num_le :: "int \<Rightarrow> int option \<Rightarrow> bool" where
  "num_le a b = (case b of None \<Rightarrow> False | Some y \<Rightarrow> a \<le> y)"

text \<open>
  \<^verbatim>\<open>MenuService.isWithinBusinessHours(currentTime, businessHours)\<close>: the body runs in a
  \<^verbatim>\<open>try\<close> whose \<^verbatim>\<open>catch\<close> returns \<^verbatim>\<open>false\<close>.
\<close>

definition isWithinBusinessHours :: "jsdate \<Rightarrow> businessHours \<Rightarrow> bool" where
  "isWithinBusinessHours currentTime bh =
     (let currentDay = getDay currentTime;
          currentTimeMinutes = int (getHours currentTime * 60 + getMinutes currentTime)
      in case schedule bh currentDay of
           None \<Rightarrow> False
         | Some sched \<Rightarrow>
             if \<not> dopen sched then False
             else (case parseTime (dstart sched) of
                     Inl e \<Rightarrow> False
                   | Inr openTime \<Rightarrow>
                       (case parseTime (dend sched) of
                          Inl e \<Rightarrow> False
                        | Inr closeTime \<Rightarrow>
                            num_ge currentTimeMinutes openTime
                            \<and> num_le currentTimeMinutes closeTime)))"

section \<open>String operations\<close>

definition lower_char :: "char \<Rightarrow> char" where
  \<comment> \<open>\<^verbatim>\<open>toLowerCase\<close> on one Latin-1 code unit: A-Z and the accented capitals U+00C0..U+00DE
      (without the multiplication sign U+00D7) move up by 32\<close>
  "lower_char c =
     (let n = code c
      in if (65 \<le> n \<and> n \<le> 90) \<or> (192 \<le> n \<and> n \<le> 222 \<and> n \<noteq> 215)
         then char_of (n + 32) else c)"

definition toLowerCase :: "string \<Rightarrow> string" where
  "toLowerCase s = map lower_char s"

fun startsWith :: "string \<Rightarrow> string \<Rightarrow> bool" where
  "startsWith s [] = True"
| "startsWith [] (p # ps) = False"
| "startsWith (c # cs) (p # ps) = (c = p \<and> startsWith cs ps)"

text \<open>\<^verbatim>\<open>s.includes(p)\<close>: \<open>p\<close> occurs in \<open>s\<close> as a contiguous substring.\<close>

fun str_includes :: "string \<Rightarrow> string \<Rightarrow> bool" where
  "str_includes [] p = (p = [])"
| "str_includes (c # cs) p = (startsWith (c # cs) p \<or> str_includes cs p)"

function digits_of :: "nat \<Rightarrow> string" where
  "digits_of n =
     (if n < 10 then [char_of (48 + n)]
      else digits_of (n div 10) @ [char_of (48 + n mod 10)])"
  by pat_completeness auto
termination
  by (relation "measure (\<lambda>n. n)") auto

declare digits_of.simps [simp del]

definition show_int :: "int \<Rightarrow> string" where
  "show_int i = (if i < 0 then CHR ''-'' # digits_of (nat (- i)) else digits_of (nat i))"

fun join :: "string \<Rightarrow> string list \<Rightarrow> string" where
  "join sep [] = []"
| "join sep [x] = x"
| "join sep (x # y # ys) = x @ sep @ join sep (y # ys)"

text \<open>
  \<^verbatim>\<open>String(v)\<close>, \<^verbatim>\<open>v.toString()\<close> on a value that has one, and the conversion a
  template literal applies.
\<close>

fun js_String :: "jsval \<Rightarrow> string" where
  "js_String JUndef = ''undefined''"
| "js_String JNull = ''null''"
| "js_String (JBool b) = (if b then ''true'' else ''false'')"
| "js_String (JNum n) = show_int n"
| "js_String (JStr s) = s"
| "js_String (JArr xs) =
     join '','' (map (\<lambda>x. if x = JUndef \<or> x = JNull then [] else js_String x) xs)"
| "js_String (JObj kvs) = ''[object Object]''"

text \<open>
  Reading a property \<^verbatim>\<open>v.k\<close>. On \<^verbatim>\<open>undefined\<close> and \<^verbatim>\<open>null\<close> it throws; an object
  answers with its own property or \<^verbatim>\<open>undefined\<close>; the other values have none of the
  property names the source reads.
\<close>

definition get_field :: "jsval \<Rightarrow> string \<Rightarrow> error + jsval" where
  "get_field v k =
     (case v of
        JUndef \<Rightarrow> Inl (TypeError (''Cannot read properties of undefined (reading '' @ k @ '')''))
      | JNull \<Rightarrow> Inl (TypeError (''Cannot read properties of null (reading '' @ k @ '')''))
      | JObj kvs \<Rightarrow> Inr (case map_of kvs k of None \<Rightarrow> JUndef | Some x \<Rightarrow> x)
      | _ \<Rightarrow> Inr JUndef)"

text \<open>Object spread \<^verbatim>\<open>{...v}\<close>: the own enumerable properties of \<open>v\<close>.\<close>

fun spread :: "jsval \<Rightarrow> (string \<times> jsval) list" where
  "spread (JObj kvs) = kvs"
| "spread (JArr xs) = zip (map digits_of [0..<length xs]) xs"
| "spread (JStr s) = zip (map digits_of [0..<length s]) (map (\<lambda>c. JStr [c]) s)"
| "spread v = []"

section \<open>Logging service: metadata sanitization\<close>

text \<open>
  \<^verbatim>\<open>
  sanitizeMetadata(metadata) {
    const sanitized = { ...metadata };
    const sensitiveFields = ['password', 'token', 'apiKey', 'secret', 'credential'];
    Object.keys(sanitized).forEach(key => {
      const lowerKey = key.toLowerCase();
      if (sensitiveFields.some(field => lowerKey.includes(field))) {
        sanitized[key] = '[REDACTED]';
      }
    });
    return sanitized;
  }
  \<close>
  An object is its list of properties in key order.
\<close>

definition sensitiveFields :: "string list" where
  "sensitiveFields = [''password'', ''token'', ''apiKey'', ''secret'', ''credential'']"

definition isSensitiveKey :: "string \<Rightarrow> bool" where
  "isSensitiveKey key =
     (let lowerKey = toLowerCase key
      in list_ex (\<lambda>field. str_includes lowerKey field) sensitiveFields)"

definition sanitizeMetadata :: "jsval \<Rightarrow> (string \<times> jsval) list" where
  "sanitizeMetadata metadata =
     map (\<lambda>(key, v). if isSensitiveKey key then (key, JStr ''[REDACTED]'') else (key, v))
       (spread metadata)"

section \<open>Menu service: configuration rows\<close>

definition cell :: "jsval list \<Rightarrow> nat \<Rightarrow> jsval" where
  \<comment> \<open>\<^verbatim>\<open>row[i]\<close>: \<^verbatim>\<open>undefined\<close> past the end\<close>
  "cell row i = (if i < length row then row ! i else JUndef)"

definition js_and :: "jsval \<Rightarrow> jsval \<Rightarrow> jsval" where
  \<comment> \<open>\<^verbatim>\<open>a && b\<close>\<close>
  "js_and a b = (if truthy a then b else a)"

record menuItem =
  number :: jsval
  title :: jsval
  responseType :: jsval
  response :: jsval
  aiProvider :: jsval
  aiContext :: jsval
  escalationMessage :: jsval
  afterHoursMessage :: jsval
  fallbackResponse :: jsval
  returnToMenu :: bool
  active :: bool
  maxTokens :: jsval

definition rowToItem :: "jsval list \<Rightarrow> menuItem" where
  "rowToItem row =
     \<lparr>number = cell row 0,
      title = cell row 1,
      responseType = cell row 2,
      response = cell row 3,
      aiProvider = cell row 4,
      aiContext = cell row 5,
      escalationMessage = cell row 6,
      afterHoursMessage = cell row 7,
      fallbackResponse = cell row 8,
      returnToMenu = (cell row 9 \<noteq> JBool False),
      active = (cell row 10 \<noteq> JBool False),
      maxTokens = js_or (cell row 11) (JNum 500)\<rparr>"

text \<open>
  \<^verbatim>\<open>MenuService.getMenuConfig()\<close>. The argument is the outcome of
  \<^verbatim>\<open>SheetsService.getSheet('Menu_Config').getDataRange().getValues()\<close>: the rows of the
  sheet, header first, or the exception it throws, which the \<^verbatim>\<open>catch\<close> turns into the
  empty list.
  \<^verbatim>\<open>
      const menuItems = data.slice(1).map(row => ({ number: row[0], ... }));
      return menuItems.filter(item => item.number && item.title);
  \<close>
\<close>

definition getMenuConfig :: "error + jsval list list \<Rightarrow> menuItem list" where
  "getMenuConfig sheet =
     (case sheet of
        Inl e \<Rightarrow> []
      | Inr data \<Rightarrow>
          filter (\<lambda>item. truthy (js_and (number item) (title item)))
            (map rowToItem (drop 1 data)))"

text \<open>
  The rows \<^verbatim>\<open>SheetsService.setupMenuSheet\<close> writes into a new \<^verbatim>\<open>Menu_Config\<close> sheet:
  the header and the sample options 1 to 4 and 0.
\<close>

definition menuHeaders :: "jsval list" where
  "menuHeaders = map JStr
     [''N'' @ [CHR 0xFA] @ ''mero'', ''T'' @ [CHR 0xED] @ ''tulo'', ''Tipo de Respuesta'',
      ''Respuesta Est'' @ [CHR 0xE1] @ ''tica'', ''Proveedor IA'', ''Contexto IA'',
      ''Mensaje Escalaci'' @ [CHR 0xF3] @ ''n'', ''Mensaje Fuera Horario'', ''Respuesta Fallback'',
      ''Volver al Men'' @ [CHR 0xFA], ''Activo'', ''Max Tokens'']"

definition sampleData :: "jsval list list" where
  "sampleData =
   [[JNum 1, JStr ''Estado de mi pedido'', JStr ''ai'', JStr [], JStr ''gemini'',
     JStr (''Ayuda con consultas sobre el estado de pedidos y seguimiento de env'' @ [CHR 0xED] @ ''os''),
     JStr [], JStr [], JStr ''Consulta el estado de tu pedido en tu cuenta'',
     JBool True, JBool True, JNum 300],
    [JNum 2, JStr (''Informaci'' @ [CHR 0xF3] @ ''n de productos''), JStr ''ai'', JStr [], JStr ''gemini'',
     JStr (''Proporciona informaci'' @ [CHR 0xF3] @ ''n sobre productos, precios y disponibilidad''),
     JStr [], JStr [], JStr (''Consulta nuestro cat'' @ [CHR 0xE1] @ ''logo en l'' @ [CHR 0xED] @ ''nea''),
     JBool True, JBool True, JNum 300],
    [JNum 3, JStr (''Pol'' @ [CHR 0xED] @ ''tica de devoluciones''), JStr ''static'',
     JStr (''Puedes devolver productos dentro de 30 d'' @ [CHR 0xED] @ ''as. Visita nuestra secci''
           @ [CHR 0xF3] @ ''n de devoluciones para m'' @ [CHR 0xE1] @ ''s detalles.''),
     JStr [], JStr [], JStr [], JStr [], JStr [], JBool True, JBool True, JNum 0],
    [JNum 4, JStr ''Hablar con un agente'', JStr ''escalate'', JStr [], JStr [], JStr [],
     JStr ''Te conectamos con un agente humano'',
     JStr (''Fuera del horario de atenci'' @ [CHR 0xF3] @ ''n. Te contactaremos pronto.''),
     JStr [], JBool False, JBool True, JNum 0],
    [JNum 0, JStr ''Salir'', JStr ''static'',
     JStr (''Gracias por contactarnos. '' @ [CHR 0xA1] @ ''Que tengas un excelente d'' @ [CHR 0xED] @ ''a!''),
     JStr [], JStr [], JStr [], JStr [], JStr [], JBool False, JBool True, JNum 0]]"

section \<open>Chat service: product ids\<close>

text \<open>
  \<^verbatim>\<open>
  extractProductId(message) {
    // Look for ML product ID patterns (MLA followed by numbers)
    const productIdPattern = /MLA\d+/i;
    const match = message.match(productIdPattern);
    return match ? match[0] : null;
  }
  \<close>
  \<open>productIdAt s\<close> is the match of the pattern at the start of \<open>s\<close>: the three letters
  in either case, then the longest run of digits, which must not be empty. The search
  takes the leftmost position that matches.
\<close>

definition eq_ci :: "char \<Rightarrow> char \<Rightarrow> bool" where
  \<comment> \<open>a pattern letter under the \<^verbatim>\<open>i\<close> flag\<close>
  "eq_ci c p = (c = p \<or> c = lower_char p)"

definition productIdAt :: "string \<Rightarrow> string option" where
  "productIdAt s =
     (case s of
        m # l # a # rest \<Rightarrow>
          if eq_ci m CHR ''M'' \<and> eq_ci l CHR ''L'' \<and> eq_ci a CHR ''A''
             \<and> takeWhile is_digit rest \<noteq> []
          then Some (m # l # a # takeWhile is_digit rest)
          else None
      | _ \<Rightarrow> None)"

fun extractProductId :: "string \<Rightarrow> string option" where
  "extractProductId [] = None"
| "extractProductId (c # cs) =
     (case productIdAt (c # cs) of
        Some t \<Rightarrow> Some t
      | None \<Rightarrow> extractProductId cs)"

section \<open>Logging service: message sanitization\<close>

text \<open>
  \<^verbatim>\<open>
  sanitizeMessage(message) {
    if (typeof message !== 'string') {
      return String(message || '');
    }
    return message
      .replace(/\b\d{4}[\s-]?\d{4}[\s-]?\d{4}[\s-]?\d{4}\b/g, '[CARD_NUMBER]')
      .replace(/\b[A-Za-z0-9._%+-]+@[A-Za-z0-9.-]+\.[A-Z|a-z]{2,}\b/g, '[EMAIL]')
      .replace(/\b\d{3}[-.]?\d{3}[-.]?\d{4}\b/g, '[PHONE]')
      .substring(0, 500);
  }
  \<close>
  Each regular expression is modelled by a matcher: given the character before the
  position (\<open>None\<close> at the start of the string) and the text from the position on, it
  returns the length of the match the backtracking engine finds there, or \<open>None\<close>.
\<close>

definition is_word :: "char \<Rightarrow> bool" where
  \<comment> \<open>\<^verbatim>\<open>\w\<close>: \<^verbatim>\<open>[A-Za-z0-9_]\<close>\<close>
  "is_word c =
     (let n = code c
      in (48 \<le> n \<and> n \<le> 57) \<or> (65 \<le> n \<and> n \<le> 90) \<or> (97 \<le> n \<and> n \<le> 122) \<or> n = 95)"

definition is_alpha :: "char \<Rightarrow> bool" where
  \<comment> \<open>\<^verbatim>\<open>[A-Za-z]\<close>\<close>
  "is_alpha c = (let n = code c in (65 \<le> n \<and> n \<le> 90) \<or> (97 \<le> n \<and> n \<le> 122))"

definition is_space :: "char \<Rightarrow> bool" where
  \<comment> \<open>\<^verbatim>\<open>\s\<close> within Latin-1: tab, line feed, vertical tab, form feed, carriage return,
      space, no-break space\<close>
  "is_space c = (let n = code c in (9 \<le> n \<and> n \<le> 13) \<or> n = 32 \<or> n = 160)"

definition char_at :: "string \<Rightarrow> nat \<Rightarrow> char option" where
  "char_at s i = (if i < length s then Some (s ! i) else None)"

definition word_at :: "char option \<Rightarrow> bool" where
  "word_at c = (case c of None \<Rightarrow> False | Some x \<Rightarrow> is_word x)"

definition boundary :: "char option \<Rightarrow> char option \<Rightarrow> bool" where
  \<comment> \<open>\<^verbatim>\<open>\b\<close> between two neighbouring positions\<close>
  "boundary before after = (word_at before \<noteq> word_at after)"

fun digitsN :: "nat \<Rightarrow> string \<Rightarrow> string option" where
  \<comment> \<open>\<^verbatim>\<open>\d{n}\<close>: the text after \<open>n\<close> digits\<close>
  "digitsN 0 s = Some s"
| "digitsN (Suc n) [] = None"
| "digitsN (Suc n) (c # cs) = (if is_digit c then digitsN n cs else None)"

definition optSep :: "(char \<Rightarrow> bool) \<Rightarrow> string \<Rightarrow> string" where
  \<comment> \<open>an optional separator that a digit must follow: taken when it is there\<close>
  "optSep p s = (case s of [] \<Rightarrow> [] | c # cs \<Rightarrow> if p c then cs else c # cs)"

definition is_card_sep :: "char \<Rightarrow> bool" where
  \<comment> \<open>\<^verbatim>\<open>[\s-]\<close>\<close>
  "is_card_sep c = (is_space c \<or> c = CHR ''-'')"

definition is_phone_sep :: "char \<Rightarrow> bool" where
  \<comment> \<open>\<^verbatim>\<open>[-.]\<close>\<close>
  "is_phone_sep c = (c = CHR ''-'' \<or> c = CHR ''.'')"

definition matchCard :: "char option \<Rightarrow> string \<Rightarrow> nat option" where
  "matchCard before s =
     (if \<not> boundary before (char_at s 0) then None
      else case digitsN 4 s of None \<Rightarrow> None | Some s1 \<Rightarrow>
           (case digitsN 4 (optSep is_card_sep s1) of None \<Rightarrow> None | Some s2 \<Rightarrow>
           (case digitsN 4 (optSep is_card_sep s2) of None \<Rightarrow> None | Some s3 \<Rightarrow>
           (case digitsN 4 (optSep is_card_sep s3) of None \<Rightarrow> None | Some s4 \<Rightarrow>
              if word_at (char_at s4 0) then None else Some (length s - length s4)))))"

definition matchPhone :: "char option \<Rightarrow> string \<Rightarrow> nat option" where
  "matchPhone before s =
     (if \<not> boundary before (char_at s 0) then None
      else case digitsN 3 s of None \<Rightarrow> None | Some s1 \<Rightarrow>
           (case digitsN 3 (optSep is_phone_sep s1) of None \<Rightarrow> None | Some s2 \<Rightarrow>
           (case digitsN 4 (optSep is_phone_sep s2) of None \<Rightarrow> None | Some s3 \<Rightarrow>
              if word_at (char_at s3 0) then None else Some (length s - length s3))))"

definition is_local :: "char \<Rightarrow> bool" where
  \<comment> \<open>\<^verbatim>\<open>[A-Za-z0-9._%+-]\<close>\<close>
  "is_local c = (is_alpha c \<or> is_digit c \<or> c \<in> set ''._%+-'')"

definition is_domain :: "char \<Rightarrow> bool" where
  \<comment> \<open>\<^verbatim>\<open>[A-Za-z0-9.-]\<close>\<close>
  "is_domain c = (is_alpha c \<or> is_digit c \<or> c \<in> set ''.-'')"

definition is_tld :: "char \<Rightarrow> bool" where
  \<comment> \<open>\<^verbatim>\<open>[A-Z|a-z]\<close>: the letters and the bar\<close>
  "is_tld c = (is_alpha c \<or> c = CHR ''|'')"

text \<open>
  The last part, \<^verbatim>\<open>[A-Z|a-z]{2,}\b\<close>, on the text after the dot: the longest run is tried
  first, then one character less at a time, down to two.
\<close>

fun tryTld :: "string \<Rightarrow> nat \<Rightarrow> nat option" where
  "tryTld s 0 = None"
| "tryTld s (Suc t) =
     (if Suc t < 2 then None
      else if boundary (char_at s t) (char_at s (Suc t)) then Some (Suc t)
      else tryTld s t)"

text \<open>
  The middle part, \<^verbatim>\<open>[A-Za-z0-9.-]+\.\<close>, on the text after the at sign: the longest
  run of \<open>k\<close> domain characters is tried first, then shorter ones; the character after
  them must be a dot, and the last part must match behind it.
\<close>

fun tryDomain :: "string \<Rightarrow> nat \<Rightarrow> nat option" where
  "tryDomain s 0 = None"
| "tryDomain s (Suc k) =
     (if char_at s (Suc k) = Some CHR ''.''
      then (case tryTld (drop (Suc (Suc k)) s)
                   (length (takeWhile is_tld (drop (Suc (Suc k)) s))) of
              Some t \<Rightarrow> Some (Suc (Suc k) + t)
            | None \<Rightarrow> tryDomain s k)
      else tryDomain s k)"

definition matchEmail :: "char option \<Rightarrow> string \<Rightarrow> nat option" where
  "matchEmail before s =
     (let l = length (takeWhile is_local s); rest = drop (Suc l) s
      in if l = 0 \<or> \<not> boundary before (char_at s 0) \<or> char_at s l \<noteq> Some CHR ''@'' then None
         else (case tryDomain rest (length (takeWhile is_domain rest)) of
                 None \<Rightarrow> None
               | Some n \<Rightarrow> Some (Suc l + n)))"

text \<open>
  \<^verbatim>\<open>s.replace(/.../g, rep)\<close>: the text is scanned from the left; where the matcher
  succeeds the replacement is written and the scan goes on behind the match (the counter
  is the number of matched characters still to skip), elsewhere the character is copied.
  None of the three expressions matches the empty string.
\<close>

fun replaceAll :: "(char option \<Rightarrow> string \<Rightarrow> nat option) \<Rightarrow> string \<Rightarrow> nat \<Rightarrow> char option \<Rightarrow> string \<Rightarrow> string" where
  "replaceAll m rep skip before [] = []"
| "replaceAll m rep (Suc k) before (c # cs) = replaceAll m rep k (Some c) cs"
| "replaceAll m rep 0 before (c # cs) =
     (case m before (c # cs) of
        Some n \<Rightarrow> rep @ replaceAll m rep (n - 1) (Some c) cs
      | None \<Rightarrow> c # replaceAll m rep 0 (Some c) cs)"

definition maskCards :: "string \<Rightarrow> string" where
  "maskCards s = replaceAll matchCard ''[CARD_NUMBER]'' 0 None s"

definition maskEmails :: "string \<Rightarrow> string" where
  "maskEmails s = replaceAll matchEmail ''[EMAIL]'' 0 None s"

definition maskPhones :: "string \<Rightarrow> string" where
  "maskPhones s = replaceAll matchPhone ''[PHONE]'' 0 None s"

definition maskAll :: "string \<Rightarrow> string" where
  \<comment> \<open>the three replacements, before the cut\<close>
  "maskAll s = maskPhones (maskEmails (maskCards s))"

definition sanitizeMessage :: "string \<Rightarrow> string" where
  "sanitizeMessage message = take 500 (maskAll message)"

definition sanitizeMessageV :: "jsval \<Rightarrow> string" where
  \<comment> \<open>\<^verbatim>\<open>sanitizeMessage\<close> on any value: what is not a string goes through \<^verbatim>\<open>String(message || '')\<close>\<close>
  "sanitizeMessageV message =
     (case message of
        JStr s \<Rightarrow> sanitizeMessage s
      | _ \<Rightarrow> js_String (js_or message (JStr [])))"

section \<open>Effects and the platform\<close>

text \<open>
  What a request does to the outside is a list of events, in order: rows appended to a
  sheet, HTTP requests sent, script properties written. (\<^verbatim>\<open>Logger.log\<close> and
  \<^verbatim>\<open>console.error\<close> only write to the execution log and are left out.) A computation
  returns its value or the exception it throws, together with the events it caused up to
  that point.
\<close>

datatype event =
    AppendRow string "jsval list"
  | Fetch string
  | SetProperties "(string \<times> string) list"

type_synonym 'a eff = "(error + 'a) \<times> event list"

definition eret :: "'a \<Rightarrow> 'a eff" where
  "eret x = (Inr x, [])"

definition ethrow :: "error \<Rightarrow> 'a eff" where
  "ethrow e = (Inl e, [])"

definition emit :: "event \<Rightarrow> unit eff" where
  "emit ev = (Inr (), [ev])"

definition lift :: "error + 'a \<Rightarrow> 'a eff" where
  "lift r = (r, [])"

definition ebind :: "'a eff \<Rightarrow> ('a \<Rightarrow> 'b eff) \<Rightarrow> 'b eff" where
  \<comment> \<open>sequencing: an exception of the first part skips the second\<close>
  "ebind m f =
     (case m of
        (Inl e, t) \<Rightarrow> (Inl e, t)
      | (Inr x, t) \<Rightarrow> (case f x of (r, t') \<Rightarrow> (r, t @ t')))"

definition ecatch :: "'a eff \<Rightarrow> (error \<Rightarrow> 'a eff) \<Rightarrow> 'a eff" where
  \<comment> \<open>\<^verbatim>\<open>try { m } catch (error) { h }\<close>\<close>
  "ecatch m h =
     (case m of
        (Inl e, t) \<Rightarrow> (case h e of (r, t') \<Rightarrow> (r, t @ t'))
      | (Inr x, t) \<Rightarrow> (Inr x, t))"

text \<open>
  The platform during one request. The request is handled at one instant \<open>now\<close>.
  The services of Apps Script answer as the fields say: the script properties (or the
  exception \<^verbatim>\<open>PropertiesService\<close> throws), the reply of \<^verbatim>\<open>UrlFetchApp.fetch\<close> to an
  endpoint (or its exception; without \<^verbatim>\<open>muteHttpExceptions\<close> an HTTP error status is
  one), \<^verbatim>\<open>JSON.parse\<close> and \<^verbatim>\<open>JSON.stringify\<close>, the rows of the menu sheet, whether
  appending to a sheet fails, whether creating the sheets fails. The request body sent
  to an endpoint is not part of the model. \<^verbatim>\<open>ConfigService\<close> is represented by the
  values its getters return: each getter catches every exception and falls back to
  defaults, so it never throws.
\<close>

record http_response =
  getResponseCode :: int
  getContentText :: string

record env =
  now :: jsdate
  nowMs :: int
  parseDate :: "string \<Rightarrow> int option"
  isoOfMs :: "int \<Rightarrow> string"
  toLocaleDateString :: "jsval \<Rightarrow> string"
  scriptProperties :: "error + (string \<Rightarrow> string option)"
  fetch :: "string \<Rightarrow> error + http_response"
  jsonParse :: "string \<Rightarrow> error + jsval"
  jsonStringify :: "jsval \<Rightarrow> string"
  stackOf :: "error \<Rightarrow> string"
  menuData :: "error + jsval list list"
  appendFails :: "string \<Rightarrow> error option"
  initSheetsFails :: "error option"
  configBusinessHours :: businessHours
  configGreetings :: "jsval \<times> jsval"
  configFooter :: jsval

definition getProperty :: "env \<Rightarrow> string \<Rightarrow> jsval eff" where
  \<comment> \<open>\<^verbatim>\<open>PropertiesService.getScriptProperties().getProperty(k)\<close>: \<^verbatim>\<open>null\<close> when absent\<close>
  "getProperty env k =
     (case scriptProperties env of
        Inl e \<Rightarrow> ethrow e
      | Inr store \<Rightarrow> eret (case store k of None \<Rightarrow> JNull | Some s \<Rightarrow> JStr s))"

definition urlFetch :: "env \<Rightarrow> string \<Rightarrow> http_response eff" where
  "urlFetch env endpoint = ebind (emit (Fetch endpoint)) (\<lambda>_. lift (fetch env endpoint))"

definition nullish :: "jsval \<Rightarrow> bool" where
  "nullish v = (v = JUndef \<or> v = JNull)"

definition get_index :: "jsval \<Rightarrow> nat \<Rightarrow> error + jsval" where
  \<comment> \<open>\<^verbatim>\<open>v[i]\<close>\<close>
  "get_index v i =
     (case v of
        JUndef \<Rightarrow> Inl (TypeError ''Cannot read properties of undefined'')
      | JNull \<Rightarrow> Inl (TypeError ''Cannot read properties of null'')
      | JArr xs \<Rightarrow> Inr (if i < length xs then xs ! i else JUndef)
      | JStr s \<Rightarrow> Inr (if i < length s then JStr [s ! i] else JUndef)
      | JObj kvs \<Rightarrow> Inr (case map_of kvs (digits_of i) of None \<Rightarrow> JUndef | Some x \<Rightarrow> x)
      | _ \<Rightarrow> Inr JUndef)"

definition sbind :: "error + 'a \<Rightarrow> ('a \<Rightarrow> error + 'b) \<Rightarrow> error + 'b" where
  "sbind r f = (case r of Inl e \<Rightarrow> Inl e | Inr x \<Rightarrow> f x)"

definition js_trim :: "jsval \<Rightarrow> error + jsval" where
  \<comment> \<open>\<^verbatim>\<open>v.trim()\<close>: only a string has the method\<close>
  "js_trim v =
     (case v of
        JStr s \<Rightarrow> Inr (JStr (rev (dropWhile is_space (rev (dropWhile is_space s)))))
      | _ \<Rightarrow> Inl (TypeError ''content.trim is not a function''))"

section \<open>Sheets service and logging service\<close>

text \<open>
  \<^verbatim>\<open>SheetsService.appendData(sheetName, data)\<close> appends the row or rethrows what
  \<^verbatim>\<open>getSheet\<close> or \<^verbatim>\<open>appendRow\<close> threw.
\<close>

definition appendData :: "env \<Rightarrow> string \<Rightarrow> jsval list \<Rightarrow> unit eff" where
  "appendData env sheetName row =
     (case appendFails env sheetName of
        Some e \<Rightarrow> ethrow e
      | None \<Rightarrow> emit (AppendRow sheetName row))"

definition LOGS_SHEET :: string where
  "LOGS_SHEET = ''Chat_Logs''"

text \<open>
  \<^verbatim>\<open>LoggingService.logInteraction(interactionType, sessionId, data)\<close>. The whole body is
  in a \<^verbatim>\<open>try\<close> whose \<^verbatim>\<open>catch\<close> only writes to the console. The response time
  \<^verbatim>\<open>data.responseTime || (Date.now() - startTime)\<close> is 0 when the data carries none, both
  clock readings being the instant of the request.
\<close>

definition logInteraction :: "env \<Rightarrow> string \<Rightarrow> jsval \<Rightarrow> jsval \<Rightarrow> unit eff" where
  "logInteraction env interactionType sessionId data =
     ecatch
       (ebind (lift (get_field data ''userMessage'')) (\<lambda>userMessage.
        ebind (lift (get_field data ''selection'')) (\<lambda>selection.
        ebind (lift (get_field data ''message'')) (\<lambda>msg.
        ebind (lift (get_field data ''botResponse'')) (\<lambda>botResponse.
        ebind (lift (if nullish botResponse then Inr JUndef else get_field botResponse ''message'')) (\<lambda>botMessage.
        ebind (lift (get_field data ''provider'')) (\<lambda>provider.
        ebind (lift (get_field data ''aiProvider'')) (\<lambda>aiProvider.
        ebind (lift (get_field data ''responseTime'')) (\<lambda>responseTime.
        ebind (lift (get_field data ''success'')) (\<lambda>success.
          appendData env LOGS_SHEET
            [JStr (toISOString (now env)),
             js_or sessionId (JStr ''anonymous''),
             JStr interactionType,
             JStr (sanitizeMessageV (js_or (js_or userMessage selection) (JStr []))),
             JStr (sanitizeMessageV (js_or (js_or msg botMessage) (JStr []))),
             js_or (js_or provider aiProvider) (JStr []),
             js_or responseTime (JNum 0),
             JStr (if success \<noteq> JBool False then ''success'' else ''error''),
             JStr (jsonStringify env (JObj (sanitizeMetadata data)))]))))))))))
       (\<lambda>error. eret ())"

text \<open>
  \<^verbatim>\<open>LoggingService.logError(operation, error, context = {})\<close>: the default applies to
  \<^verbatim>\<open>undefined\<close> only.
\<close>

definition logError :: "env \<Rightarrow> string \<Rightarrow> error \<Rightarrow> jsval \<Rightarrow> unit eff" where
  "logError env operation error context0 =
     (let context = (if context0 = JUndef then JObj [] else context0)
      in ecatch
           (ebind (lift (get_field context ''sessionId'')) (\<lambda>sessionId.
              appendData env LOGS_SHEET
                [JStr (toISOString (now env)),
                 js_or sessionId (JStr ''system''),
                 JStr ''error'',
                 JStr operation,
                 JStr (error_message error),
                 JStr [],
                 JNum 0,
                 JStr ''error'',
                 JStr (jsonStringify env
                   (JObj [(''stack'', JStr (stackOf env error)),
                          (''context'', JObj (sanitizeMetadata context)),
                          (''operation'', JStr operation)]))]))
           (\<lambda>error2. eret ()))"

text \<open>\<^verbatim>\<open>LoggingService.logEscalation(sessionId, reason, status)\<close>.\<close>

definition logEscalation :: "env \<Rightarrow> jsval \<Rightarrow> jsval \<Rightarrow> string \<Rightarrow> unit eff" where
  "logEscalation env sessionId reason status =
     ecatch
       (appendData env LOGS_SHEET
          [JStr (toISOString (now env)),
           sessionId,
           JStr ''escalation'',
           JStr (sanitizeMessageV reason),
           JStr (''Escalation status: '' @ status),
           JStr [],
           JNum 0,
           JStr status,
           JStr (jsonStringify env
             (JObj [(''escalationReason'', reason),
                    (''escalationStatus'', JStr status),
                    (''businessHours'', JBool (status \<noteq> ''after_hours''))]))])
       (\<lambda>error. eret ())"

section \<open>AI service\<close>

text \<open>
  \<^verbatim>\<open>AIService.buildPrompt(context)\<close>: the template with \<^verbatim>\<open>context.context\<close> (or its
  default) and \<^verbatim>\<open>context.userQuery\<close> filled in.
\<close>

definition promptHead :: string where
  "promptHead =
     (''Eres un asistente de atenci'' @ [CHR 0xF3] @ ''n al cliente para una tienda en l'' @ [CHR 0xED] @ ''nea. '' @ [CHR 0x0A])
     @ (''    Tu objetivo es proporcionar respuestas '' @ [CHR 0xFA] @ ''tiles, precisas y amigables.'' @ [CHR 0x0A])
     @ (''    '' @ [CHR 0x0A])
     @ (''    Contexto espec'' @ [CHR 0xED] @ ''fico: '')"

definition promptMiddle :: string where
  "promptMiddle =
     ([CHR 0x0A])
     @ (''    '' @ [CHR 0x0A])
     @ (''    Instrucciones:'' @ [CHR 0x0A])
     @ (''    - Mant'' @ [CHR 0xE9] @ ''n un tono profesional pero cercano'' @ [CHR 0x0A])
     @ (''    - Proporciona informaci'' @ [CHR 0xF3] @ ''n espec'' @ [CHR 0xED] @ ''fica y accionable'' @ [CHR 0x0A])
     @ (''    - Si no tienes informaci'' @ [CHR 0xF3] @ ''n suficiente, sugiere contactar con un agente humano'' @ [CHR 0x0A])
     @ (''    - Mant'' @ [CHR 0xE9] @ ''n las respuestas concisas pero completas'' @ [CHR 0x0A])
     @ (''    - Incluye pasos espec'' @ [CHR 0xED] @ ''ficos cuando sea apropiado'' @ [CHR 0x0A])
     @ (''    '' @ [CHR 0x0A])
     @ (''    Consulta del usuario: '')"

definition promptTail :: string where
  "promptTail =
     ([CHR 0x0A])
     @ (''    '' @ [CHR 0x0A])
     @ (''    Respuesta:'')"

definition buildPrompt :: "jsval \<Rightarrow> error + string" where
  "buildPrompt context =
     sbind (get_field context ''context'') (\<lambda>c.
     sbind (get_field context ''userQuery'') (\<lambda>userQuery.
       Inr (promptHead
            @ js_String (js_or c (JStr (''Consulta general de atenci'' @ [CHR 0xF3] @ ''n al cliente'')))
            @ promptMiddle @ js_String userQuery @ promptTail)))"

definition geminiEndpoint :: string where
  "geminiEndpoint =
     ''https://generativelanguage.googleapis.com/v1beta/models/gemini-pro:generateContent?key=''"

definition claudeEndpoint :: string where
  "claudeEndpoint = ''https://api.anthropic.com/v1/messages''"

definition geminiText :: "jsval \<Rightarrow> error + jsval" where
  \<comment> \<open>\<^verbatim>\<open>responseData.candidates[0]?.content?.parts[0]?.text\<close>\<close>
  "geminiText candidates =
     sbind (get_index candidates 0) (\<lambda>c0.
       if nullish c0 then Inr JUndef
       else sbind (get_field c0 ''content'') (\<lambda>content.
         if nullish content then Inr JUndef
         else sbind (get_field content ''parts'') (\<lambda>parts.
              sbind (get_index parts 0) (\<lambda>p0.
                if nullish p0 then Inr JUndef else get_field p0 ''text''))))"

definition claudeText :: "jsval \<Rightarrow> error + jsval" where
  \<comment> \<open>\<^verbatim>\<open>responseData.content[0]?.text\<close>\<close>
  "claudeText content =
     sbind (get_index content 0) (\<lambda>c0.
       if nullish c0 then Inr JUndef else get_field c0 ''text'')"

text \<open>
  \<^verbatim>\<open>AIService.callGemini(context)\<close>: key, prompt, one request, then
  \<^verbatim>\<open>
      if (response.getResponseCode() === 200 && responseData.candidates) {
        const content = responseData.candidates[0]?.content?.parts[0]?.text;
        if (content) {
          return { success: true, content: content.trim(), provider: 'gemini',
                   timestamp: new Date().toISOString() };
        }
      }
      throw new Error('Invalid response from Gemini API');
  \<close>
  and a \<^verbatim>\<open>catch\<close> that returns \<^verbatim>\<open>{success: false, error, provider}\<close>.
\<close>

definition callGemini :: "env \<Rightarrow> jsval \<Rightarrow> jsval eff" where
  "callGemini env context =
     ecatch
       (ebind (getProperty env ''GEMINI_API_KEY'') (\<lambda>apiKey.
          if \<not> truthy apiKey then ethrow (Error ''Gemini API key not configured'')
          else
          ebind (lift (buildPrompt context)) (\<lambda>prompt.
          ebind (lift (get_field context ''maxTokens'')) (\<lambda>maxTokens.
          ebind (urlFetch env (geminiEndpoint @ js_String apiKey)) (\<lambda>response.
          ebind (lift (jsonParse env (getContentText response))) (\<lambda>responseData.
          ebind (if getResponseCode response = 200
                 then lift (get_field responseData ''candidates'')
                 else eret (JBool False)) (\<lambda>candidates.
            if truthy candidates then
              ebind (lift (geminiText candidates)) (\<lambda>content.
                if truthy content then
                  ebind (lift (js_trim content)) (\<lambda>trimmed.
                    eret (JObj [(''success'', JBool True),
                                (''content'', trimmed),
                                (''provider'', JStr ''gemini''),
                                (''timestamp'', JStr (toISOString (now env)))]))
                else ethrow (Error ''Invalid response from Gemini API''))
            else ethrow (Error ''Invalid response from Gemini API''))))))))
       (\<lambda>error.
          eret (JObj [(''success'', JBool False),
                      (''error'', JStr (''Gemini API error: '' @ error_message error)),
                      (''provider'', JStr ''gemini'')]))"

definition callClaude :: "env \<Rightarrow> jsval \<Rightarrow> jsval eff" where
  "callClaude env context =
     ecatch
       (ebind (getProperty env ''CLAUDE_API_KEY'') (\<lambda>apiKey.
          if \<not> truthy apiKey then ethrow (Error ''Claude API key not configured'')
          else
          ebind (lift (buildPrompt context)) (\<lambda>prompt.
          ebind (lift (get_field context ''maxTokens'')) (\<lambda>maxTokens.
          ebind (urlFetch env claudeEndpoint) (\<lambda>response.
          ebind (lift (jsonParse env (getContentText response))) (\<lambda>responseData.
          ebind (if getResponseCode response = 200
                 then lift (get_field responseData ''content'')
                 else eret (JBool False)) (\<lambda>contentList.
            if truthy contentList then
              ebind (lift (claudeText contentList)) (\<lambda>content.
                if truthy content then
                  ebind (lift (js_trim content)) (\<lambda>trimmed.
                    eret (JObj [(''success'', JBool True),
                                (''content'', trimmed),
                                (''provider'', JStr ''claude''),
                                (''timestamp'', JStr (toISOString (now env)))]))
                else ethrow (Error ''Invalid response from Claude API''))
            else ethrow (Error ''Invalid response from Claude API''))))))))
       (\<lambda>error.
          eret (JObj [(''success'', JBool False),
                      (''error'', JStr (''Claude API error: '' @ error_message error)),
                      (''provider'', JStr ''claude'')]))"

text \<open>
  \<^verbatim>\<open>AIService.generateResponse(provider, context)\<close>: the switch over the provider, an
  \<^verbatim>\<open>Error\<close> for any other value, and a \<^verbatim>\<open>catch\<close> that returns the failure object.
\<close>

definition generateResponse :: "env \<Rightarrow> jsval \<Rightarrow> jsval \<Rightarrow> jsval eff" where
  "generateResponse env provider context =
     ecatch
       (if provider = JStr ''gemini'' then callGemini env context
        else if provider = JStr ''claude'' then callClaude env context
        else ethrow (Error (''Unsupported AI provider: '' @ js_String provider)))
       (\<lambda>error.
          eret (JObj [(''success'', JBool False),
                      (''error'', JStr (error_message error)),
                      (''provider'', provider)]))"

section \<open>MercadoLibre service\<close>

definition oauthEndpoint :: string where
  "oauthEndpoint = ''https://api.mercadolibre.com/oauth/token''"

definition orderEndpoint :: "jsval \<Rightarrow> string" where
  "orderEndpoint orderId = ''https://api.mercadolibre.com/orders/'' @ js_String orderId"

definition itemEndpoint :: "jsval \<Rightarrow> string" where
  "itemEndpoint itemId = ''https://api.mercadolibre.com/items/'' @ js_String itemId"

text \<open>
  The expiry written after a refresh: \<^verbatim>\<open>new Date()\<close> moved by \<^verbatim>\<open>expires_in\<close> seconds,
  as an ISO string. With \<^verbatim>\<open>expires_in\<close> missing the date is invalid and
  \<^verbatim>\<open>toISOString\<close> throws; any value that is not a number is treated the same way.
\<close>

definition expiryISO :: "env \<Rightarrow> jsval \<Rightarrow> error + string" where
  "expiryISO env expiresIn =
     (case expiresIn of
        JNum n \<Rightarrow> Inr (isoOfMs env (nowMs env + n * 1000))
      | _ \<Rightarrow> Inl (RangeError ''Invalid time value''))"

text \<open>
  \<^verbatim>\<open>MercadoLibreService.refreshAccessToken()\<close>: the refresh-token grant. Every failure
  (credentials missing, the request failing, a reply without token) is caught, logged
  and answered with \<^verbatim>\<open>null\<close>.
\<close>

definition refreshAccessToken :: "env \<Rightarrow> jsval eff" where
  "refreshAccessToken env =
     ecatch
       (ebind (getProperty env ''ML_CLIENT_ID'') (\<lambda>clientId.
        ebind (getProperty env ''ML_CLIENT_SECRET'') (\<lambda>clientSecret.
        ebind (getProperty env ''ML_REFRESH_TOKEN'') (\<lambda>refreshToken.
          if \<not> truthy clientId \<or> \<not> truthy clientSecret \<or> \<not> truthy refreshToken
          then ethrow (Error ''Missing required credentials for token refresh'')
          else
          ebind (urlFetch env oauthEndpoint) (\<lambda>response.
          ebind (lift (jsonParse env (getContentText response))) (\<lambda>responseData.
          ebind (if getResponseCode response = 200
                 then lift (get_field responseData ''access_token'')
                 else eret (JBool False)) (\<lambda>accessToken.
            if truthy accessToken then
              ebind (lift (get_field responseData ''expires_in'')) (\<lambda>expiresIn.
              ebind (lift (expiryISO env expiresIn)) (\<lambda>expirationDate.
              ebind (lift (get_field responseData ''refresh_token'')) (\<lambda>newRefreshToken.
              ebind (emit (SetProperties
                       ([(''ML_ACCESS_TOKEN'', js_String accessToken),
                         (''ML_ACCESS_TOKEN_FECHA_EXPIRA'', expirationDate)]
                        @ (if truthy newRefreshToken
                           then [(''ML_REFRESH_TOKEN'', js_String newRefreshToken)] else [])))) (\<lambda>_.
                eret accessToken))))
            else
              ebind (lift (get_field responseData ''error_description'')) (\<lambda>description.
                ethrow (Error (''Token refresh failed: ''
                               @ js_String (js_or description (JStr ''Unknown error''))))))))))))
       (\<lambda>error. ebind (logError env ''refreshAccessToken'' error JUndef) (\<lambda>_. eret JNull))"

definition bufferTime :: int where
  \<comment> \<open>5 minutes in milliseconds\<close>
  "bufferTime = 5 * 60 * 1000"

definition tokenNotExpired :: "env \<Rightarrow> jsval \<Rightarrow> bool" where
  \<comment> \<open>\<^verbatim>\<open>now.getTime() < (expiry.getTime() - bufferTime)\<close>; an unreadable date gives
      \<^verbatim>\<open>NaN\<close> and the comparison is false\<close>
  "tokenNotExpired env expirationDate =
     (case parseDate env (js_String expirationDate) of
        None \<Rightarrow> False
      | Some expiry \<Rightarrow> nowMs env < expiry - bufferTime)"

text \<open>
  \<^verbatim>\<open>
  getValidAccessToken() {
    try {
      const properties = PropertiesService.getScriptProperties();
      const currentToken = properties.getProperty('ML_ACCESS_TOKEN');
      const expirationDate = properties.getProperty('ML_ACCESS_TOKEN_FECHA_EXPIRA');
      if (currentToken && expirationDate) {
        const expiry = new Date(expirationDate);
        const now = new Date();
        const bufferTime = 5 * 60 * 1000;
        if (now.getTime() < (expiry.getTime() - bufferTime)) {
          return currentToken;
        }
      }
      return this.refreshAccessToken();
    } catch (error) {
      return null;
    }
  }
  \<close>
\<close>

definition getValidAccessToken :: "env \<Rightarrow> jsval eff" where
  "getValidAccessToken env =
     ecatch
       (ebind (getProperty env ''ML_ACCESS_TOKEN'') (\<lambda>currentToken.
        ebind (getProperty env ''ML_ACCESS_TOKEN_FECHA_EXPIRA'') (\<lambda>expirationDate.
          if truthy currentToken \<and> truthy expirationDate \<and> tokenNotExpired env expirationDate
          then eret currentToken
          else refreshAccessToken env)))
       (\<lambda>error. eret JNull)"

text \<open>
  The common tail of the three operations: parse the reply, return it under \<^verbatim>\<open>data\<close>
  when the status is 200, throw the upstream message otherwise.
\<close>

definition mlReply :: "env \<Rightarrow> http_response \<Rightarrow> jsval eff" where
  "mlReply env resp =
     ebind (lift (jsonParse env (getContentText resp))) (\<lambda>responseData.
       if getResponseCode resp = 200 then
         eret (JObj [(''success'', JBool True),
                     (''data'', responseData),
                     (''timestamp'', JStr (toISOString (now env)))])
       else
         ebind (lift (get_field responseData ''message'')) (\<lambda>m.
           ethrow (Error (''ML API error: '' @ js_String (js_or m (JStr ''Unknown error''))))))"

definition mlFailure :: "error \<Rightarrow> jsval" where
  "mlFailure error = JObj [(''success'', JBool False), (''error'', JStr (error_message error))]"

text \<open>\<^verbatim>\<open>MercadoLibreService.getOrderDetails(orderId)\<close>.\<close>

definition getOrderDetails :: "env \<Rightarrow> jsval \<Rightarrow> jsval eff" where
  "getOrderDetails env orderId =
     ecatch
       (ebind (getValidAccessToken env) (\<lambda>token.
          if \<not> truthy token then ethrow (Error ''No valid access token available'')
          else ebind (urlFetch env (orderEndpoint orderId)) (\<lambda>response. mlReply env response)))
       (\<lambda>error.
          ebind (logError env ''getOrderDetails'' error (JObj [(''orderId'', orderId)])) (\<lambda>_.
            eret (mlFailure error)))"



text \<open>\<^verbatim>\<open>MercadoLibreService.getProductInfo(itemId)\<close>: a public endpoint, no token.\<close>

definition getProductInfo :: "env \<Rightarrow> jsval \<Rightarrow> jsval eff" where
  "getProductInfo env itemId =
     ecatch
       (ebind (urlFetch env (itemEndpoint itemId)) (\<lambda>response. mlReply env response))
       (\<lambda>error. eret (mlFailure error))"

section \<open>Menu service\<close>

definition itemObject :: "menuItem \<Rightarrow> jsval" where
  \<comment> \<open>a menu option as the object it is in the code\<close>
  "itemObject item =
     JObj [(''number'', number item), (''title'', title item),
           (''responseType'', responseType item), (''response'', response item),
           (''aiProvider'', aiProvider item), (''aiContext'', aiContext item),
           (''escalationMessage'', escalationMessage item),
           (''afterHoursMessage'', afterHoursMessage item),
           (''fallbackResponse'', fallbackResponse item),
           (''returnToMenu'', JBool (returnToMenu item)),
           (''active'', JBool (active item)),
           (''maxTokens'', maxTokens item)]"

definition getGreeting :: "env \<Rightarrow> bool \<Rightarrow> jsval" where
  "getGreeting env isBusinessHours =
     (if isBusinessHours then fst (configGreetings env) else snd (configGreetings env))"

text \<open>
  \<^verbatim>\<open>MenuService.getMenu()\<close>: the menu object, logged as \<^verbatim>\<open>menu_display\<close>; an exception
  gives the failure object with a timestamp.
\<close>

definition getMenu :: "env \<Rightarrow> jsval eff" where
  "getMenu env =
     ecatch
       (let menuConfig = getMenuConfig (menuData env);
            currentTime = now env;
            isBusinessHours = isWithinBusinessHours currentTime (configBusinessHours env);
            menu = JObj [(''success'', JBool True),
                         (''timestamp'', JStr (toISOString currentTime)),
                         (''businessHours'', JBool isBusinessHours),
                         (''greeting'', getGreeting env isBusinessHours),
                         (''options'', JArr (map itemObject (filter active menuConfig))),
                         (''footer'', configFooter env)]
        in ebind (logInteraction env ''menu_display'' JNull menu) (\<lambda>_. eret menu))
       (\<lambda>error.
          eret (JObj [(''success'', JBool False),
                      (''error'', JStr ((''No se pudo cargar el men'' @ [CHR 0xFA] @ ''. Intenta nuevamente.''))),
                      (''timestamp'', JStr (toISOString (now env)))]))"

text \<open>
  \<^verbatim>\<open>
  handleStaticResponse(option, sessionId) {
    const response = { success: true, type: 'static', title: option.title,
      message: option.response, showMenu: option.returnToMenu !== false,
      timestamp: new Date().toISOString() };
    LoggingService.logInteraction('static_response', sessionId, response);
    return response;
  }
  \<close>
\<close>

definition handleStaticResponse :: "env \<Rightarrow> menuItem \<Rightarrow> jsval \<Rightarrow> jsval eff" where
  "handleStaticResponse env option sessionId =
     (let response = JObj [(''success'', JBool True),
                           (''type'', JStr ''static''),
                           (''title'', title option),
                           (''message'', response option),
                           (''showMenu'', JBool (returnToMenu option)),
                           (''timestamp'', JStr (toISOString (now env)))]
      in ebind (logInteraction env ''static_response'' sessionId response) (\<lambda>_. eret response))"

text \<open>
  \<^verbatim>\<open>MenuService.handleAIResponse(option, sessionId)\<close>. The AI gateway is the parameter
  \<open>ai\<close>, so that a gateway that throws is covered as well as one that returns a
  failure; the dispatcher passes \<open>generateResponse env\<close>.
  \<^verbatim>\<open>
      const aiResponse = AIService.generateResponse(aiProvider, context);
      if (aiResponse.success) {
        const response = { success: true, type: 'ai', title: option.title,
          message: aiResponse.content, provider: aiProvider,
          showMenu: option.returnToMenu !== false, timestamp: new Date().toISOString() };
        LoggingService.logInteraction('ai_response', sessionId, response);
        return response;
      } else {
        return this.handleStaticResponse({ ...option,
          response: option.fallbackResponse || 'Lo siento, no puedo procesar tu consulta en este momento.'
        }, sessionId);
      }
    } catch (error) {
      return this.handleStaticResponse({ ...option,
        response: option.fallbackResponse || 'Error en el servicio de IA. Intenta nuevamente.'
      }, sessionId);
    }
  \<close>
\<close>

definition handleAIResponse ::
  "(jsval \<Rightarrow> jsval \<Rightarrow> jsval eff) \<Rightarrow> env \<Rightarrow> menuItem \<Rightarrow> jsval \<Rightarrow> jsval eff" where
  "handleAIResponse ai env option sessionId =
     ecatch
       (let provider = js_or (aiProvider option) (JStr ''gemini'');
            context = JObj [(''userQuery'', title option),
                            (''context'', js_or (aiContext option) (JStr [])),
                            (''maxTokens'', js_or (maxTokens option) (JNum 500))]
        in ebind (ai provider context) (\<lambda>aiResponse.
           ebind (lift (get_field aiResponse ''success'')) (\<lambda>success.
             if truthy success then
               ebind (lift (get_field aiResponse ''content'')) (\<lambda>content.
                 let response = JObj [(''success'', JBool True),
                                      (''type'', JStr ''ai''),
                                      (''title'', title option),
                                      (''message'', content),
                                      (''provider'', provider),
                                      (''showMenu'', JBool (returnToMenu option)),
                                      (''timestamp'', JStr (toISOString (now env)))]
                 in ebind (logInteraction env ''ai_response'' sessionId response) (\<lambda>_.
                      eret response))
             else
               handleStaticResponse env
                 (option\<lparr>response := js_or (fallbackResponse option)
                                      (JStr ''Lo siento, no puedo procesar tu consulta en este momento.'')\<rparr>)
                 sessionId)))
       (\<lambda>error.
          handleStaticResponse env
            (option\<lparr>response := js_or (fallbackResponse option)
                                 (JStr ''Error en el servicio de IA. Intenta nuevamente.'')\<rparr>)
            sessionId)"

text \<open>\<^verbatim>\<open>MenuService.handleEscalation(option, sessionId)\<close>.\<close>

definition handleEscalation :: "env \<Rightarrow> menuItem \<Rightarrow> jsval \<Rightarrow> jsval eff" where
  "handleEscalation env option sessionId =
     (let currentTime = now env;
          bh = configBusinessHours env;
          isBusinessHours = isWithinBusinessHours currentTime bh;
          msg = (if isBusinessHours
                 then js_or (escalationMessage option) (JStr ''Te estoy conectando con un agente humano. Por favor espera un momento.'')
                 else js_or (afterHoursMessage option)
                        (JStr ((''Actualmente estamos fuera del horario de atenci'' @ [CHR 0xF3] @ ''n ('') @ display bh @ (''). Tu consulta ser'' @ [CHR 0xE1] @ '' atendida en el pr'' @ [CHR 0xF3] @ ''ximo horario h'' @ [CHR 0xE1] @ ''bil.''))))
      in ebind (logEscalation env sessionId (title option)
                  (if isBusinessHours then ''pending'' else ''after_hours'')) (\<lambda>_.
           eret (JObj [(''success'', JBool True),
                       (''type'', JStr ''escalation''),
                       (''title'', title option),
                       (''message'', msg),
                       (''businessHours'', JBool isBusinessHours),
                       (''showMenu'', JBool False),
                       (''timestamp'', JStr (toISOString currentTime))])))"

text \<open>
  \<^verbatim>\<open>
      const selectedOption = menuConfig.find(option =>
        option.number.toString() === selection.toString() && option.active);
  \<close>
  The number of a loaded option is truthy, so it has a \<^verbatim>\<open>toString\<close>; the selection
  has none when it is \<^verbatim>\<open>undefined\<close> or \<^verbatim>\<open>null\<close>, and the callback throws on the
  first option it is applied to.
\<close>

fun findOption :: "menuItem list \<Rightarrow> jsval \<Rightarrow> error + menuItem option" where
  "findOption [] selection = Inr None"
| "findOption (option # rest) selection =
     (if nullish selection then Inl (TypeError ''Cannot read properties of undefined (reading toString)'')
      else if js_String (number option) = js_String selection \<and> active option then Inr (Some option)
      else findOption rest selection)"

definition invalidSelection :: jsval where
  "invalidSelection =
     JObj [(''success'', JBool False),
           (''message'', JStr (''Selecci'' @ [CHR 0xF3] @ ''n inv'' @ [CHR 0xE1] @ ''lida. Por favor elige una opci'' @ [CHR 0xF3] @ ''n del men'' @ [CHR 0xFA] @ ''.'')),
           (''showMenu'', JBool True)]"

definition invalidConfiguration :: jsval where
  "invalidConfiguration =
     JObj [(''success'', JBool False),
           (''message'', JStr (''Configuraci'' @ [CHR 0xF3] @ ''n inv'' @ [CHR 0xE1] @ ''lida para esta opci'' @ [CHR 0xF3] @ ''n.'')),
           (''showMenu'', JBool True)]"

definition selectionError :: jsval where
  "selectionError =
     JObj [(''success'', JBool False),
           (''message'', JStr (''Error procesando tu selecci'' @ [CHR 0xF3] @ ''n. Intenta nuevamente.'')),
           (''showMenu'', JBool True)]"

text \<open>
  \<^verbatim>\<open>MenuService.processSelection(selection, sessionId)\<close>: find the option, log the
  selection, dispatch on \<^verbatim>\<open>responseType\<close>. The three failure objects carry
  \<^verbatim>\<open>success\<close>, \<^verbatim>\<open>message\<close> and \<^verbatim>\<open>showMenu\<close> and nothing else.
\<close>

definition processSelection ::
  "(jsval \<Rightarrow> jsval \<Rightarrow> jsval eff) \<Rightarrow> env \<Rightarrow> jsval \<Rightarrow> jsval \<Rightarrow> jsval eff" where
  "processSelection ai env selection sessionId =
     ecatch
       (let menuConfig = getMenuConfig (menuData env)
        in ebind (lift (findOption menuConfig selection)) (\<lambda>selectedOption.
             case selectedOption of
               None \<Rightarrow> eret invalidSelection
             | Some option \<Rightarrow>
                 ebind (logInteraction env ''menu_selection'' sessionId
                          (JObj [(''selection'', selection), (''option'', title option)])) (\<lambda>_.
                   if responseType option = JStr ''static'' then handleStaticResponse env option sessionId
                   else if responseType option = JStr ''ai'' then handleAIResponse ai env option sessionId
                   else if responseType option = JStr ''escalate'' then handleEscalation env option sessionId
                   else eret invalidConfiguration)))
       (\<lambda>error.
          ebind (logError env ''processSelection'' error
                   (JObj [(''selection'', selection), (''sessionId'', sessionId)])) (\<lambda>_.
            eret selectionError))"

section \<open>Chat service\<close>

text \<open>
  \<^verbatim>\<open>getSessionContext(sessionId)\<close> reads the property \<^verbatim>\<open>SESSION_<id>\<close> and parses it;
  \<^verbatim>\<open>updateSessionContext(sessionId, updates)\<close> merges the updates into it and writes it
  back.
\<close>

definition getSessionContext :: "env \<Rightarrow> jsval \<Rightarrow> jsval eff" where
  "getSessionContext env sessionId =
     ebind (getProperty env (''SESSION_'' @ js_String sessionId)) (\<lambda>contextData.
       if truthy contextData then lift (jsonParse env (js_String contextData))
       else eret (JObj []))"

definition merge_objects :: "(string \<times> jsval) list \<Rightarrow> (string \<times> jsval) list \<Rightarrow> (string \<times> jsval) list" where
  \<comment> \<open>\<^verbatim>\<open>{...a, ...b}\<close>\<close>
  "merge_objects a b =
     map (\<lambda>(k, v). (k, case map_of b k of None \<Rightarrow> v | Some v' \<Rightarrow> v')) a
     @ filter (\<lambda>(k, v). map_of a k = None) b"

definition updateSessionContext :: "env \<Rightarrow> jsval \<Rightarrow> jsval \<Rightarrow> unit eff" where
  "updateSessionContext env sessionId updates =
     ebind (getSessionContext env sessionId) (\<lambda>currentContext.
       emit (SetProperties
               [(''SESSION_'' @ js_String sessionId,
                 jsonStringify env (JObj (merge_objects (spread currentContext) (spread updates))))]))"

definition containsOrderKeywords :: "string \<Rightarrow> bool" where
  "containsOrderKeywords msg =
     list_ex (\<lambda>keyword. str_includes msg keyword)
       [''pedido'', ''orden'', ''compra'', ''env'' @ [CHR 0xED] @ ''o'', ''seguimiento'', ''rastreo'',
        ''entrega'']"

definition containsProductKeywords :: "string \<Rightarrow> bool" where
  "containsProductKeywords msg =
     list_ex (\<lambda>keyword. str_includes msg keyword)
       [''producto'', ''art'' @ [CHR 0xED] @ ''culo'', ''disponibilidad'', ''precio'', ''stock'',
        ''caracter'' @ [CHR 0xED] @ ''stica'']"

definition containsEscalationKeywords :: "string \<Rightarrow> bool" where
  "containsEscalationKeywords msg =
     list_ex (\<lambda>keyword. str_includes msg keyword)
       [''agente'', ''humano'', ''persona'', ''hablar'', ''representante'', ''ayuda directa'']"

text \<open>
  \<^verbatim>\<open>ChatService.determineResponseStrategy(message, context)\<close>. A message that is not a
  string has no \<^verbatim>\<open>toLowerCase\<close>. The order and the product branch build their result
  with \<^verbatim>\<open>this.extractOrderContext(message)\<close> and \<^verbatim>\<open>this.extractProductContext(message)\<close>;
  \<^verbatim>\<open>ChatService\<close> defines neither method and no other file adds one, so each call throws
  a \<^verbatim>\<open>TypeError\<close>.
\<close>

record strategy =
  stype :: string
  scontext :: jsval

definition determineResponseStrategy :: "jsval \<Rightarrow> jsval \<Rightarrow> error + strategy" where
  "determineResponseStrategy msg context =
     (case msg of
        JStr m \<Rightarrow>
          (let lowerMessage = toLowerCase m
           in if str_includes lowerMessage (''men'' @ [CHR 0xFA]) \<or> str_includes lowerMessage ''menu''
                 \<or> str_includes lowerMessage ''opciones'' \<or> str_includes lowerMessage ''ayuda''
              then Inr \<lparr>stype = ''menu_request'', scontext = JUndef\<rparr>
              else if containsOrderKeywords lowerMessage
              then Inl (TypeError ''this.extractOrderContext is not a function'')
              else if containsProductKeywords lowerMessage
              then Inl (TypeError ''this.extractProductContext is not a function'')
              else if containsEscalationKeywords lowerMessage
              then Inr \<lparr>stype = ''escalation'', scontext = JUndef\<rparr>
              else Inr \<lparr>stype = ''general_ai'',
                        scontext = JObj [(''userMessage'', msg), (''sessionContext'', context)]\<rparr>)
      | JUndef \<Rightarrow> Inl (TypeError ''Cannot read properties of undefined (reading toLowerCase)'')
      | JNull \<Rightarrow> Inl (TypeError ''Cannot read properties of null (reading toLowerCase)'')
      | _ \<Rightarrow> Inl (TypeError ''message.toLowerCase is not a function''))"

text \<open>\<^verbatim>\<open>ChatService.handleDefault(message, sessionId)\<close>.\<close>

definition handleDefault :: "env \<Rightarrow> jsval" where
  "handleDefault env =
     JObj [(''success'', JBool True),
           (''type'', JStr ''default''),
           (''message'', JStr (''Entiendo tu consulta. '' @ [CHR 0xBF] @ ''Te gustar'' @ [CHR 0xED] @ ''a ver el men'' @ [CHR 0xFA] @ '' de opciones disponibles o prefieres que te conecte con un agente humano?'')),
           (''showMenu'', JBool True),
           (''timestamp'', JStr (toISOString (now env)))]"

text \<open>
  \<^verbatim>\<open>
  extractOrderId(message) {
    const orderIdPattern = /\b\d{12,}\b/;
    const match = message.match(orderIdPattern);
    return match ? match[0] : null;
  }
  \<close>
  At a position the expression matches the whole run of digits there, when it starts at
  a word boundary, has twelve digits or more and ends at a word boundary.
\<close>

definition orderIdAt :: "char option \<Rightarrow> string \<Rightarrow> string option" where
  "orderIdAt before s =
     (let run = takeWhile is_digit s
      in if boundary before (char_at s 0) \<and> 12 \<le> length run
            \<and> \<not> word_at (char_at s (length run))
         then Some run else None)"

fun extractOrderIdFrom :: "char option \<Rightarrow> string \<Rightarrow> string option" where
  "extractOrderIdFrom before [] = None"
| "extractOrderIdFrom before (c # cs) =
     (case orderIdAt before (c # cs) of
        Some run \<Rightarrow> Some run
      | None \<Rightarrow> extractOrderIdFrom (Some c) cs)"

definition extractOrderId :: "jsval \<Rightarrow> error + jsval" where
  "extractOrderId msg =
     (case msg of
        JStr m \<Rightarrow> Inr (case extractOrderIdFrom None m of None \<Rightarrow> JNull | Some run \<Rightarrow> JStr run)
      | _ \<Rightarrow> Inl (TypeError ''message.match is not a function''))"

definition extractProductIdV :: "jsval \<Rightarrow> error + jsval" where
  \<comment> \<open>\<^verbatim>\<open>extractProductId\<close> on any value: what is not a string has no \<^verbatim>\<open>match\<close>\<close>
  "extractProductIdV msg =
     (case msg of
        JStr m \<Rightarrow> Inr (case extractProductId m of None \<Rightarrow> JNull | Some t \<Rightarrow> JStr t)
      | _ \<Rightarrow> Inl (TypeError ''message.match is not a function''))"

text \<open>
  The two pictographs that open the order and the product text are beyond Latin-1; each
  is written as the name of its code points.
\<close>

definition packageSign :: string where
  "packageSign = ''[U+1F4E6]''"

definition shoppingBagsSign :: string where
  "shoppingBagsSign = ''[U+1F6CD U+FE0F]''"

definition formatOrderInfo :: "env \<Rightarrow> jsval \<Rightarrow> error + string" where
  "formatOrderInfo env orderData =
     sbind (get_field orderData ''id'') (\<lambda>oid.
     sbind (get_field orderData ''status'') (\<lambda>status.
     sbind (get_field orderData ''total_amount'') (\<lambda>total.
     sbind (get_field orderData ''date_created'') (\<lambda>created.
       Inr (packageSign @ '' **Informaci'' @ [CHR 0xF3] @ ''n del Pedido**'' @ [CHR 0x0A] @ ''    '' @ [CHR 0x0A] @ ''**N'' @ [CHR 0xFA] @ ''mero:** ''
          @ js_String oid
          @ [CHR 0x0A] @ ''**Estado:** ''
          @ js_String status
          @ [CHR 0x0A] @ ''**Total:** $''
          @ js_String total
          @ [CHR 0x0A] @ ''**Fecha:** ''
          @ toLocaleDateString env created
          @ [CHR 0x0A] @ [CHR 0x0A] @ [CHR 0xBF] @ ''Necesitas m'' @ [CHR 0xE1] @ ''s informaci'' @ [CHR 0xF3] @ ''n sobre este pedido?'')))))"

definition formatProductInfo :: "jsval \<Rightarrow> error + string" where
  "formatProductInfo productData =
     sbind (get_field productData ''title'') (\<lambda>ptitle.
     sbind (get_field productData ''price'') (\<lambda>price.
     sbind (get_field productData ''available_quantity'') (\<lambda>quantity.
     sbind (get_field productData ''condition'') (\<lambda>condition.
       Inr (shoppingBagsSign @ '' **''
          @ js_String ptitle
          @ ''**'' @ [CHR 0x0A] @ ''    '' @ [CHR 0x0A] @ ''**Precio:** $''
          @ js_String price
          @ [CHR 0x0A] @ ''**Disponibles:** ''
          @ js_String quantity
          @ [CHR 0x0A] @ ''**Condici'' @ [CHR 0xF3] @ ''n:** ''
          @ js_String condition
          @ [CHR 0x0A] @ [CHR 0x0A] @ [CHR 0xBF] @ ''Te interesa este producto o necesitas m'' @ [CHR 0xE1] @ ''s informaci'' @ [CHR 0xF3] @ ''n?'')))))"

definition orderAIContext :: "jsval \<Rightarrow> jsval" where
  "orderAIContext msg =
     JObj [(''userQuery'', msg),
           (''context'', JStr (''El usuario est'' @ [CHR 0xE1] @ '' preguntando sobre pedidos. Proporciona informaci'' @ [CHR 0xF3] @ ''n general sobre c'' @ [CHR 0xF3] @ ''mo consultar pedidos, estados de env'' @ [CHR 0xED] @ ''o, y pol'' @ [CHR 0xED] @ ''ticas de devoluci'' @ [CHR 0xF3] @ ''n.'')),
           (''maxTokens'', JNum 300)]"

definition productAIContext :: "jsval \<Rightarrow> jsval" where
  "productAIContext msg =
     JObj [(''userQuery'', msg),
           (''context'', JStr (''El usuario est'' @ [CHR 0xE1] @ '' preguntando sobre productos. Ayuda con informaci'' @ [CHR 0xF3] @ ''n sobre disponibilidad, caracter'' @ [CHR 0xED] @ ''sticas, precios, y recomendaciones.'')),
           (''maxTokens'', JNum 300)]"

text \<open>
  \<^verbatim>\<open>ChatService.handleOrderInquiry(message, sessionId, context)\<close>: with an order id in
  the message and a successful fetch the order summary is returned; otherwise the
  answer of the AI gateway is returned as it is; an exception gives the default answer.
\<close>

definition handleOrderInquiry :: "env \<Rightarrow> jsval \<Rightarrow> jsval \<Rightarrow> jsval eff" where
  "handleOrderInquiry env msg sessionId =
     ecatch
       (ebind (lift (extractOrderId msg)) (\<lambda>orderId.
        ebind (if truthy orderId then
                 ebind (getOrderDetails env orderId) (\<lambda>orderDetails.
                 ebind (lift (get_field orderDetails ''success'')) (\<lambda>success.
                   if truthy success then
                     ebind (lift (get_field orderDetails ''data'')) (\<lambda>data.
                     ebind (lift (formatOrderInfo env data)) (\<lambda>orderInfo.
                       eret (Some (JObj [(''success'', JBool True),
                                         (''type'', JStr ''order_info''),
                                         (''message'', JStr orderInfo),
                                         (''data'', data),
                                         (''showMenu'', JBool True),
                                         (''timestamp'', JStr (toISOString (now env)))]))))
                   else eret None))
               else eret None) (\<lambda>found.
          case found of
            Some r \<Rightarrow> eret r
          | None \<Rightarrow> generateResponse env (JStr ''gemini'') (orderAIContext msg))))
       (\<lambda>error. eret (handleDefault env))"

text \<open>
  \<^verbatim>\<open>
  handleProductInquiry(message, sessionId, context) {
    try {
      const productId = this.extractProductId(message);
      if (productId) {
        const productInfo = MercadoLibreService.getProductInfo(productId);
        if (productInfo.success) {
          const formattedInfo = this.formatProductInfo(productInfo.data);
          return { success: true, type: 'product_info', message: formattedInfo,
            data: productInfo.data, showMenu: true, timestamp: new Date().toISOString() };
        }
      }
      const aiContext = { userQuery: message, context: '...', maxTokens: 300 };
      return AIService.generateResponse(CONFIG.AI_PROVIDERS.GEMINI, aiContext);
    } catch (error) {
      return this.handleDefault(message, sessionId);
    }
  }
  \<close>
\<close>

definition handleProductInquiry :: "env \<Rightarrow> jsval \<Rightarrow> jsval \<Rightarrow> jsval eff" where
  "handleProductInquiry env msg sessionId =
     ecatch
       (ebind (lift (extractProductIdV msg)) (\<lambda>productId.
        ebind (if truthy productId then
                 ebind (getProductInfo env productId) (\<lambda>productInfo.
                 ebind (lift (get_field productInfo ''success'')) (\<lambda>success.
                   if truthy success then
                     ebind (lift (get_field productInfo ''data'')) (\<lambda>data.
                     ebind (lift (formatProductInfo data)) (\<lambda>formattedInfo.
                       eret (Some (JObj [(''success'', JBool True),
                                         (''type'', JStr ''product_info''),
                                         (''message'', JStr formattedInfo),
                                         (''data'', data),
                                         (''showMenu'', JBool True),
                                         (''timestamp'', JStr (toISOString (now env)))]))))
                   else eret None))
               else eret None) (\<lambda>found.
          case found of
            Some r \<Rightarrow> eret r
          | None \<Rightarrow> generateResponse env (JStr ''gemini'') (productAIContext msg))))
       (\<lambda>error. eret (handleDefault env))"

text \<open>\<^verbatim>\<open>ChatService.handleGeneralAI(message, sessionId, context)\<close>.\<close>

definition handleGeneralAI :: "env \<Rightarrow> jsval \<Rightarrow> jsval \<Rightarrow> jsval eff" where
  "handleGeneralAI env msg sessionId =
     ebind (generateResponse env (JStr ''gemini'')
              (JObj [(''userQuery'', msg),
                     (''context'', JStr (''Conversaci'' @ [CHR 0xF3] @ ''n general de atenci'' @ [CHR 0xF3] @ ''n al cliente. Mant'' @ [CHR 0xE9] @ ''n un tono amigable y profesional.'')),
                     (''maxTokens'', JNum 400)])) (\<lambda>aiResponse.
     ebind (lift (get_field aiResponse ''success'')) (\<lambda>success.
       if truthy success then
         ebind (lift (get_field aiResponse ''content'')) (\<lambda>content.
           eret (JObj [(''success'', JBool True),
                       (''type'', JStr ''ai_chat''),
                       (''message'', content),
                       (''showMenu'', JBool True),
                       (''timestamp'', JStr (toISOString (now env)))]))
       else eret (handleDefault env)))"

text \<open>\<^verbatim>\<open>ChatService.handleChatEscalation(message, sessionId)\<close>.\<close>

definition handleChatEscalation :: "env \<Rightarrow> jsval \<Rightarrow> jsval \<Rightarrow> jsval eff" where
  "handleChatEscalation env msg sessionId =
     (let currentTime = now env;
          isBusinessHours = isWithinBusinessHours currentTime (configBusinessHours env)
      in ebind (logEscalation env sessionId msg
                  (if isBusinessHours then ''pending'' else ''after_hours'')) (\<lambda>_.
           eret (JObj [(''success'', JBool True),
                       (''type'', JStr ''escalation''),
                       (''message'', JStr (if isBusinessHours then (''Te conectar'' @ [CHR 0xE9] @ '' con un agente humano. Por favor espera un momento mientras te transfiero.'')
                                           else (''Actualmente estamos fuera del horario de atenci'' @ [CHR 0xF3] @ ''n. Tu consulta ser'' @ [CHR 0xE1] @ '' atendida en el pr'' @ [CHR 0xF3] @ ''ximo horario h'' @ [CHR 0xE1] @ ''bil.''))),
                       (''businessHours'', JBool isBusinessHours),
                       (''showMenu'', JBool False),
                       (''timestamp'', JStr (toISOString currentTime))])))"

definition messageError :: "env \<Rightarrow> jsval" where
  "messageError env =
     JObj [(''success'', JBool False),
           (''message'', JStr (''Lo siento, ocurri'' @ [CHR 0xF3] @ '' un error procesando tu mensaje. '' @ [CHR 0xBF] @ ''Podr'' @ [CHR 0xED] @ ''as intentar nuevamente?'')),
           (''showMenu'', JBool True),
           (''timestamp'', JStr (toISOString (now env)))]"

text \<open>
  \<^verbatim>\<open>ChatService.processMessage(message, sessionId)\<close>: session context, strategy, the
  switch over the strategy type, session update, log entry; any exception is logged and
  answered with the apology that offers the menu.
\<close>

definition processMessage :: "env \<Rightarrow> jsval \<Rightarrow> jsval \<Rightarrow> jsval eff" where
  "processMessage env msg sessionId =
     ecatch
       (ebind (getSessionContext env sessionId) (\<lambda>sessionContext.
        ebind (lift (determineResponseStrategy msg sessionContext)) (\<lambda>responseStrategy.
        ebind (if stype responseStrategy = ''menu_request'' then getMenu env
               else if stype responseStrategy = ''order_inquiry'' then handleOrderInquiry env msg sessionId
               else if stype responseStrategy = ''product_inquiry'' then handleProductInquiry env msg sessionId
               else if stype responseStrategy = ''general_ai'' then handleGeneralAI env msg sessionId
               else if stype responseStrategy = ''escalation'' then handleChatEscalation env msg sessionId
               else eret (handleDefault env)) (\<lambda>response.
        ebind (updateSessionContext env sessionId
                 (JObj [(''lastMessage'', msg),
                        (''lastResponse'', response),
                        (''timestamp'', JStr (toISOString (now env)))])) (\<lambda>_.
        ebind (logInteraction env ''chat_message'' sessionId
                 (JObj [(''userMessage'', msg),
                        (''responseType'', JStr (stype responseStrategy)),
                        (''botResponse'', response)])) (\<lambda>_.
          eret response))))))
       (\<lambda>error.
          ebind (logError env ''processMessage'' error
                   (JObj [(''message'', msg), (''sessionId'', sessionId)])) (\<lambda>_.
            eret (messageError env)))"

section \<open>The dispatcher\<close>

definition isSystemInitialized :: "env \<Rightarrow> bool eff" where
  "isSystemInitialized env =
     ebind (getProperty env ''SYSTEM_INITIALIZED'') (\<lambda>v. eret (v = JStr ''true''))"

text \<open>
  \<^verbatim>\<open>initializeSystem()\<close> creates the sheets, marks the system initialized and rethrows
  any exception. (The sheets it creates are not among the events.)
\<close>

definition initializeSystem :: "env \<Rightarrow> unit eff" where
  "initializeSystem env =
     ecatch
       (ebind (case initSheetsFails env of Some e \<Rightarrow> ethrow e | None \<Rightarrow> eret ()) (\<lambda>_.
        ebind (getProperty env ''SYSTEM_INITIALIZED'') (\<lambda>_.
          emit (SetProperties [(''SYSTEM_INITIALIZED'', ''true'')]))))
       (\<lambda>error. ethrow error)"

definition dispatcherError :: "env \<Rightarrow> jsval" where
  "dispatcherError env =
     JObj [(''success'', JBool False),
           (''error'', JStr (''Lo siento, ocurri'' @ [CHR 0xC3] @ [CHR 0xB3] @ '' un error. Por favor intenta nuevamente.'')),
           (''timestamp'', JStr (toISOString (now env)))]"

text \<open>
  \<^verbatim>\<open>
  function handleChatbotRequest(params = {}) {
    try {
      if (!isSystemInitialized()) { initializeSystem(); }
      const { action, userInput, sessionId } = params;
      switch (action) {
        case 'getMenu':          return MenuService.getMenu();
        case 'processSelection': return MenuService.processSelection(userInput, sessionId);
        case 'sendMessage':      return ChatService.processMessage(userInput, sessionId);
        default:                 return MenuService.getMenu();
      }
    } catch (error) {
      Logger.log(...);
      LoggingService.logError('handleChatbotRequest', error, params);
      return { success: false, error: '...', timestamp: new Date().toISOString() };
    }
  }
  \<close>
  The body of the \<^verbatim>\<open>try\<close> is \<open>dispatch\<close>.
\<close>

definition ensureInitialized :: "env \<Rightarrow> unit eff" where
  \<comment> \<open>\<^verbatim>\<open>if (!isSystemInitialized()) { initializeSystem(); }\<close>\<close>
  "ensureInitialized env =
     ebind (isSystemInitialized env) (\<lambda>initialized.
       if \<not> initialized then initializeSystem env else eret ())"

definition dispatch :: "env \<Rightarrow> jsval \<Rightarrow> jsval eff" where
  "dispatch env params =
     ebind (ensureInitialized env) (\<lambda>_.
     ebind (lift (get_field params ''action'')) (\<lambda>action.
     ebind (lift (get_field params ''userInput'')) (\<lambda>userInput.
     ebind (lift (get_field params ''sessionId'')) (\<lambda>sessionId.
       if action = JStr ''getMenu'' then getMenu env
       else if action = JStr ''processSelection''
       then processSelection (generateResponse env) env userInput sessionId
       else if action = JStr ''sendMessage'' then processMessage env userInput sessionId
       else getMenu env))))"

definition handleChatbotRequest :: "env \<Rightarrow> jsval \<Rightarrow> jsval eff" where
  "handleChatbotRequest env params0 =
     (let params = (if params0 = JUndef then JObj [] else params0)
      in ecatch (dispatch env params)
           (\<lambda>error.
              ebind (logError env ''handleChatbotRequest'' error params) (\<lambda>_.
                eret (dispatcherError env))))"

section \<open>Logging service: analytics\<close>












record dayStats =
  total :: nat
  successful :: nat
  dayEscalations :: nat


text \<open>The variables of the loop over the logs.\<close>

record tally =
  byType :: "(string \<times> nat) list"
  usage :: "(string \<times> nat) list"
  hours :: "(string \<times> nat) list"
  daily :: "(string \<times> dayStats) list"
  totalResponseTime :: int
  successfulInteractions :: nat
  escalations :: nat











section \<open>Reading the events; a sample platform\<close>

text \<open>
  The interaction types (third cell) of the rows a computation appended to the log
  sheet, and the endpoints it sent a request to, in order.
\<close>

fun interactionTypes :: "event list \<Rightarrow> jsval list" where
  "interactionTypes [] = []"
| "interactionTypes (AppendRow sheetName row # evs) =
     (if sheetName = LOGS_SHEET then cell row 2 # interactionTypes evs else interactionTypes evs)"
| "interactionTypes (ev # evs) = interactionTypes evs"

fun fetched :: "event list \<Rightarrow> string list" where
  "fetched [] = []"
| "fetched (Fetch endpoint # evs) = endpoint # fetched evs"
| "fetched (ev # evs) = fetched evs"

text \<open>
  A platform on which the statements below are exercised: Monday 15 January 2024,
  10:30 local time, the system initialized, the menu sheet as \<^verbatim>\<open>setupMenuSheet\<close> fills it,
  a stored access token that expired at 12:00 UTC with no refresh credentials, every HTTP
  request failing, business hours Monday to Friday 09:00 to 18:00.
\<close>

definition demoBusinessHours :: businessHours where
  "demoBusinessHours =
     \<lparr>schedule = (\<lambda>i. if i < 7
                        then Some \<lparr>dopen = (1 \<le> i \<and> i \<le> 5), dstart = JStr ''09:00'', dend = JStr ''18:00''\<rparr>
                        else None),
      display = ''09:00 - 18:00, Mon,Tue,Wed,Thu,Fri'',
      timezone = ''America/Argentina/Buenos_Aires''\<rparr>"

definition demoEnv :: env where
  "demoEnv =
     \<lparr>now = \<lparr>getDay = 1, getHours = 10, getMinutes = 30, toISOString = ''2024-01-15T13:30:00.000Z''\<rparr>,
      nowMs = 1705325400000,
      parseDate = (\<lambda>s. if s = ''2024-01-15T12:00:00.000Z'' then Some 1705320000000 else None),
      isoOfMs = (\<lambda>ms. ''2024-01-15T19:30:00.000Z''),
      toLocaleDateString = (\<lambda>v. ''15/1/2024''),
      scriptProperties =
        Inr (map_of [(''SYSTEM_INITIALIZED'', ''true''),
                     (''ML_ACCESS_TOKEN'', ''APP_USR-1''),
                     (''ML_ACCESS_TOKEN_FECHA_EXPIRA'', ''2024-01-15T12:00:00.000Z'')]),
      fetch = (\<lambda>endpoint. Inl (Error ''Address unavailable'')),
      jsonParse = (\<lambda>text. Inl (SyntaxError ''Unexpected end of JSON input'')),
      jsonStringify = (\<lambda>v. ''{}''),
      stackOf = (\<lambda>e. []),
      menuData = Inr (menuHeaders # sampleData),
      appendFails = (\<lambda>sheetName. None),
      initSheetsFails = None,
      configBusinessHours = demoBusinessHours,
      configGreetings = (JStr ''Hola'', JStr ''Hola. Estamos fuera de horario''),
      configFooter = JStr ''Escribe el numero de la opcion''\<rparr>"

text \<open>
  The response \<^verbatim>\<open>handleStaticResponse\<close> builds for
  \<^verbatim>\<open>{...option, response: option.fallbackResponse || generic}\<close>.
\<close>

definition staticReply :: "env \<Rightarrow> menuItem \<Rightarrow> string \<Rightarrow> jsval" where
  "staticReply env opt generic =
     JObj [(''success'', JBool True), (''type'', JStr ''static''), (''title'', title opt),
           (''message'', js_or (fallbackResponse opt) (JStr generic)),
           (''showMenu'', JBool (returnToMenu opt)),
           (''timestamp'', JStr (toISOString (now env)))]"

section \<open>Item ids\<close>



section \<open>Theorems\<close>

subsection \<open>Business hours\<close>

lemma parseTime_0900: "parseTime (JStr ''09:00'') = Inr (Some 540)"
  by (simp add: parseTime_def js_Number_def is_digit_def digit_val_def code_def)

lemma parseTime_1800: "parseTime (JStr ''18:00'') = Inr (Some 1080)"
  by (simp add: parseTime_def js_Number_def is_digit_def digit_val_def code_def)

text \<open>
  C6. On a weekday whose entry is open from '09:00' to '18:00' the test is true exactly
  for the minutes 540..1080 of the day, both ends included: 09:00 and 18:00 are in hours,
  08:59 and 18:01 are not. On a weekday marked closed the result is false at any time.
\<close>

theorem business_hours_inclusive:
  "(schedule bh d = Some sched \<and> dopen sched
      \<and> dstart sched = JStr ''09:00'' \<and> dend sched = JStr ''18:00''
    \<longrightarrow> isWithinBusinessHours \<lparr>getDay = d, getHours = 9, getMinutes = 0, toISOString = ts\<rparr> bh
      \<and> isWithinBusinessHours \<lparr>getDay = d, getHours = 18, getMinutes = 0, toISOString = ts\<rparr> bh
      \<and> \<not> isWithinBusinessHours \<lparr>getDay = d, getHours = 8, getMinutes = 59, toISOString = ts\<rparr> bh
      \<and> \<not> isWithinBusinessHours \<lparr>getDay = d, getHours = 18, getMinutes = 1, toISOString = ts\<rparr> bh
      \<and> (\<forall>h m. isWithinBusinessHours \<lparr>getDay = d, getHours = h, getMinutes = m, toISOString = ts\<rparr> bh
             \<longleftrightarrow> 540 \<le> h * 60 + m \<and> h * 60 + m \<le> 1080))
   \<and> (schedule bh d = Some sched \<and> \<not> dopen sched
    \<longrightarrow> (\<forall>h m. \<not> isWithinBusinessHours \<lparr>getDay = d, getHours = h, getMinutes = m, toISOString = ts\<rparr> bh))"
  by (auto simp: isWithinBusinessHours_def parseTime_0900 parseTime_1800 num_ge_def num_le_def Let_def)

theorem business_hours_inclusive_witness:
  "isWithinBusinessHours \<lparr>getDay = 1, getHours = 9, getMinutes = 0, toISOString = ''2024-01-15T12:00:00.000Z''\<rparr>
     \<lparr>schedule = (\<lambda>i. Some \<lparr>dopen = (i = 1), dstart = JStr ''09:00'', dend = JStr ''18:00''\<rparr>),
      display = ''09:00 - 18:00, Mon'', timezone = ''America/Argentina/Buenos_Aires''\<rparr>
   \<and> \<not> isWithinBusinessHours \<lparr>getDay = 1, getHours = 18, getMinutes = 1, toISOString = ''2024-01-15T21:01:00.000Z''\<rparr>
     \<lparr>schedule = (\<lambda>i. Some \<lparr>dopen = (i = 1), dstart = JStr ''09:00'', dend = JStr ''18:00''\<rparr>),
      display = ''09:00 - 18:00, Mon'', timezone = ''America/Argentina/Buenos_Aires''\<rparr>
   \<and> \<not> isWithinBusinessHours \<lparr>getDay = 0, getHours = 12, getMinutes = 0, toISOString = ''2024-01-14T15:00:00.000Z''\<rparr>
     \<lparr>schedule = (\<lambda>i. Some \<lparr>dopen = (i = 1), dstart = JStr ''09:00'', dend = JStr ''18:00''\<rparr>),
      display = ''09:00 - 18:00, Mon'', timezone = ''America/Argentina/Buenos_Aires''\<rparr>"
  using business_hours_inclusive
    [of "\<lparr>schedule = (\<lambda>i. Some \<lparr>dopen = (i = 1), dstart = JStr ''09:00'', dend = JStr ''18:00''\<rparr>),
          display = ''09:00 - 18:00, Mon'', timezone = ''America/Argentina/Buenos_Aires''\<rparr>"
        1 "\<lparr>dopen = True, dstart = JStr ''09:00'', dend = JStr ''18:00''\<rparr>" "''2024-01-15T12:00:00.000Z''"]
    business_hours_inclusive
    [of "\<lparr>schedule = (\<lambda>i. Some \<lparr>dopen = (i = 1), dstart = JStr ''09:00'', dend = JStr ''18:00''\<rparr>),
          display = ''09:00 - 18:00, Mon'', timezone = ''America/Argentina/Buenos_Aires''\<rparr>"
        1 "\<lparr>dopen = True, dstart = JStr ''09:00'', dend = JStr ''18:00''\<rparr>" "''2024-01-15T21:01:00.000Z''"]
    business_hours_inclusive
    [of "\<lparr>schedule = (\<lambda>i. Some \<lparr>dopen = (i = 1), dstart = JStr ''09:00'', dend = JStr ''18:00''\<rparr>),
          display = ''09:00 - 18:00, Mon'', timezone = ''America/Argentina/Buenos_Aires''\<rparr>"
        0 "\<lparr>dopen = False, dstart = JStr ''09:00'', dend = JStr ''18:00''\<rparr>" "''2024-01-14T15:00:00.000Z''"]
  by simp

subsection \<open>Metadata sanitization\<close>

lemma startsWith_set: "startsWith s p \<Longrightarrow> set p \<subseteq> set s"
  by (induction s p rule: startsWith.induct) auto

lemma str_includes_set: "str_includes s p \<Longrightarrow> set p \<subseteq> set s"
  by (induction s) (auto dest!: startsWith_set)

lemma code_lower_char:
  "code (lower_char c) =
     (if (65 \<le> code c \<and> code c \<le> 90) \<or> (192 \<le> code c \<and> code c \<le> 222 \<and> code c \<noteq> 215)
      then code c + 32 else code c)"
  by (auto simp: lower_char_def Let_def code_def)

lemma lower_char_not_K: "lower_char c \<noteq> CHR ''K''"
proof
  assume h: "lower_char c = CHR ''K''"
  have "code (lower_char c) \<noteq> 75"
    by (auto simp: code_lower_char)
  then show False using h by (simp add: code_def)
qed

text \<open>
  The entry \<^verbatim>\<open>'apiKey'\<close> of \<^verbatim>\<open>sensitiveFields\<close> is compared with the lower-cased key, which
  has no capital K: it matches no key at all.
\<close>

lemma apiKey_never_matches: "\<not> str_includes (toLowerCase key) ''apiKey''"
proof
  assume "str_includes (toLowerCase key) ''apiKey''"
  then have "CHR ''K'' \<in> set (toLowerCase key)"
    using str_includes_set by fastforce
  then obtain c where "lower_char c = CHR ''K''" by (auto simp: toLowerCase_def)
  then show False using lower_char_not_K by blast
qed

text \<open>
  C3 (the code departs from the claim). The claim has every key that contains
  \<open>apikey\<close>, in any case, redacted. On the object
  \<^verbatim>\<open>{apiKey: 'sk-12345', password: 'hunter2', user: 'ana'}\<close> the code redacts the
  password and returns the API key as it came.
\<close>

theorem sanitizeMetadata_keeps_apiKey:
  "sanitizeMetadata
     (JObj [(''apiKey'', JStr ''sk-12345''), (''password'', JStr ''hunter2''), (''user'', JStr ''ana'')])
   = [(''apiKey'', JStr ''sk-12345''), (''password'', JStr ''[REDACTED]''), (''user'', JStr ''ana'')]"
  by code_simp

subsection \<open>Menu configuration rows\<close>

lemma getMenuConfig_member:
  "item \<in> set (getMenuConfig (Inr (header # rows)))
   \<longleftrightarrow> item \<in> rowToItem ` set rows \<and> truthy (number item) \<and> truthy (title item)"
  by (auto simp: getMenuConfig_def js_and_def)

text \<open>
  C9 (the code departs from the claim). The claim keeps every row whose number and title
  are present, the reserved number 0 included. The filter tests the number for
  truthiness, and 0 is falsy: of the five sample rows that \<^verbatim>\<open>setupMenuSheet\<close> writes,
  the options 1 to 4 are loaded and the option 0, 'Salir', is dropped.
\<close>

theorem getMenuConfig_drops_option_zero:
  "map number (getMenuConfig (Inr (menuHeaders # sampleData))) = [JNum 1, JNum 2, JNum 3, JNum 4]
   \<and> getMenuConfig (Inr [menuHeaders, [JNum 0, JStr ''Salir'', JStr ''static'']]) = []"
  by (simp add: getMenuConfig_def sampleData_def rowToItem_def cell_def js_and_def js_or_def)

subsection \<open>Effects, the dispatcher, the menu engine, the token\<close>

lemma ebind_pair_Inr: "ebind (Inr x, t) f = (fst (f x), t @ snd (f x))"
  by (simp add: ebind_def split: prod.splits)

lemma ebind_pair_Inl: "ebind (Inl e, t) f = (Inl e, t)"
  by (simp add: ebind_def)

lemma ebind_eret [simp]: "ebind (eret x) f = f x"
  by (simp add: eret_def ebind_pair_Inr)

lemma ebind_ethrow [simp]: "ebind (ethrow e) f = ethrow e"
  by (simp add: ethrow_def ebind_pair_Inl)

lemma ebind_lift_Inr [simp]: "ebind (lift (Inr x)) f = f x"
  by (simp add: lift_def ebind_pair_Inr)

lemma ebind_lift_Inl [simp]: "ebind (lift (Inl e)) f = ethrow e"
  by (simp add: lift_def ethrow_def ebind_pair_Inl)

lemma ecatch_pair_Inr: "ecatch (Inr x, t) h = (Inr x, t)"
  by (simp add: ecatch_def)

lemma ecatch_pair_Inl: "ecatch (Inl e, t) h = (fst (h e), t @ snd (h e))"
  by (simp add: ecatch_def split: prod.splits)

lemma ecatch_eret [simp]: "ecatch (eret x) h = eret x"
  by (simp add: eret_def ecatch_pair_Inr)

lemma ecatch_ethrow [simp]: "ecatch (ethrow e) h = h e"
  by (simp add: ethrow_def ecatch_pair_Inl)

lemma ecatch_total:
  assumes "\<And>e. \<exists>x t. h e = (Inr x, t)"
  shows "\<exists>x t. ecatch m h = (Inr x, t)"
proof (cases m)
  case (Pair r t)
  show ?thesis
  proof (cases r)
    case (Inl e)
    obtain x t' where "h e = (Inr x, t')" using assms by blast
    then show ?thesis using Pair Inl by (simp add: ecatch_pair_Inl)
  next
    case (Inr x)
    then show ?thesis using Pair by (simp add: ecatch_pair_Inr)
  qed
qed

lemma ebind_total:
  assumes "\<exists>x t. m = (Inr x, t)" "\<And>x. \<exists>y t. f x = (Inr y, t)"
  shows "\<exists>y t. ebind m f = (Inr y, t)"
proof -
  obtain x t where m: "m = (Inr x, t)" using assms(1) by blast
  obtain y t' where "f x = (Inr y, t')" using assms(2) by blast
  then show ?thesis using m by (simp add: ebind_pair_Inr)
qed

lemma eret_total: "\<exists>y t. eret x = (Inr y, t)"
  by (simp add: eret_def)

lemma logError_total: "\<exists>x t. logError env operation e c = (Inr x, t)"
  unfolding logError_def Let_def by (rule ecatch_total) (simp add: eret_def)

lemma logInteraction_total: "\<exists>x t. logInteraction env ty sid d = (Inr x, t)"
  unfolding logInteraction_def by (rule ecatch_total) (simp add: eret_def)

lemma logEscalation_total: "\<exists>x t. logEscalation env sid r st = (Inr x, t)"
  unfolding logEscalation_def by (rule ecatch_total) (simp add: eret_def)

lemma getMenu_total: "\<exists>x t. getMenu env = (Inr x, t)"
  unfolding getMenu_def by (rule ecatch_total) (simp add: eret_def)

lemma processSelection_total: "\<exists>x t. processSelection ai env sel sid = (Inr x, t)"
  unfolding processSelection_def
  by (rule ecatch_total) (intro ebind_total logError_total eret_total)

lemma processMessage_total: "\<exists>x t. processMessage env m sid = (Inr x, t)"
  unfolding processMessage_def
  by (rule ecatch_total) (intro ebind_total logError_total eret_total)

lemma handleChatbotRequest_total: "\<exists>x t. handleChatbotRequest env params = (Inr x, t)"
  unfolding handleChatbotRequest_def Let_def
  by (rule ecatch_total) (intro ebind_total logError_total eret_total)

text \<open>
  C1. For every platform state and every parameter value (an object with any fields,
  missing fields, \<^verbatim>\<open>undefined\<close>, \<^verbatim>\<open>null\<close>) \<open>handleChatbotRequest\<close> returns a value and
  never an exception. When the body of its \<^verbatim>\<open>try\<close> throws, the value is the object with
  \<^verbatim>\<open>success: false\<close>, the error text and the timestamp. When initialization succeeds
  and the action is neither \<^verbatim>\<open>'processSelection'\<close> nor \<^verbatim>\<open>'sendMessage'\<close> (also when it
  is missing), the result is that of \<open>getMenu\<close>.
\<close>

theorem handleChatbotRequest_never_throws:
  "(\<exists>r t. handleChatbotRequest env params = (Inr r, t))
   \<and> (dispatch env (if params = JUndef then JObj [] else params) = (Inl e, t0)
      \<longrightarrow> fst (handleChatbotRequest env params)
          = Inr (JObj [(''success'', JBool False),
                       (''error'', JStr (''Lo siento, ocurri'' @ [CHR 0xC3] @ [CHR 0xB3] @ '' un error. Por favor intenta nuevamente.'')),
                       (''timestamp'', JStr (toISOString (now env)))]))
   \<and> (ensureInitialized env = (Inr (), t1) \<and> get_field (if params = JUndef then JObj [] else params) ''action'' = Inr action
       \<and> action \<noteq> JStr ''processSelection'' \<and> action \<noteq> JStr ''sendMessage''
      \<longrightarrow> handleChatbotRequest env params = (fst (getMenu env), t1 @ snd (getMenu env)))"
proof (intro conjI impI)
  show "\<exists>r t. handleChatbotRequest env params = (Inr r, t)"
    by (rule handleChatbotRequest_total)
next
  assume d: "dispatch env (if params = JUndef then JObj [] else params) = (Inl e, t0)"
  obtain u t where "logError env ''handleChatbotRequest'' e (if params = JUndef then JObj [] else params) = (Inr u, t)"
    using logError_total by blast
  then show "fst (handleChatbotRequest env params)
          = Inr (JObj [(''success'', JBool False),
                       (''error'', JStr (''Lo siento, ocurri'' @ [CHR 0xC3] @ [CHR 0xB3] @ '' un error. Por favor intenta nuevamente.'')),
                       (''timestamp'', JStr (toISOString (now env)))])"
    using d by (simp add: handleChatbotRequest_def Let_def ecatch_pair_Inl ebind_pair_Inr eret_def dispatcherError_def)
next
  assume h: "ensureInitialized env = (Inr (), t1) \<and> get_field (if params = JUndef then JObj [] else params) ''action'' = Inr action
       \<and> action \<noteq> JStr ''processSelection'' \<and> action \<noteq> JStr ''sendMessage''"
  let ?p = "if params = JUndef then JObj [] else params"
  from h have nn: "?p \<noteq> JUndef" "?p \<noteq> JNull"
    by (auto simp: get_field_def split: if_splits)
  then obtain ui si where f: "get_field ?p ''userInput'' = Inr ui" "get_field ?p ''sessionId'' = Inr si"
    by (cases ?p) (auto simp: get_field_def)
  obtain x t where g: "getMenu env = (Inr x, t)" using getMenu_total by blast
  have "dispatch env ?p = (Inr x, t1 @ t)"
    using h f g by (simp add: dispatch_def ebind_pair_Inr)
  then show "handleChatbotRequest env params = (fst (getMenu env), t1 @ snd (getMenu env))"
    using g by (simp add: handleChatbotRequest_def Let_def ecatch_pair_Inr)
qed

lemma get_field_obj: "\<exists>v. get_field (JObj kvs) k = Inr v"
  by (simp add: get_field_def)

lemma snd_ebind:
  "snd (ebind m f) = snd m @ (case fst m of Inl e \<Rightarrow> [] | Inr x \<Rightarrow> snd (f x))"
  by (cases m; cases "fst m") (auto simp: ebind_pair_Inr ebind_pair_Inl)

lemma snd_ecatch:
  "snd (ecatch m h) = snd m @ (case fst m of Inl e \<Rightarrow> snd (h e) | Inr x \<Rightarrow> [])"
  by (cases m; cases "fst m") (auto simp: ecatch_pair_Inr ecatch_pair_Inl)

lemma interactionTypes_append [simp]:
  "interactionTypes (xs @ ys) = interactionTypes xs @ interactionTypes ys"
  by (induction xs rule: interactionTypes.induct) auto

lemma fetched_append [simp]: "fetched (xs @ ys) = fetched xs @ fetched ys"
  by (induction xs rule: fetched.induct) auto

lemma snd_simps [simp]:
  "snd (eret x) = []" "snd (ethrow e) = []" "snd (lift r) = []" "snd (emit ev) = [ev]"
  by (simp_all add: eret_def ethrow_def lift_def emit_def)

lemma fst_simps [simp]:
  "fst (eret x) = Inr x" "fst (ethrow e) = Inl e" "fst (lift r) = r" "fst (emit ev) = Inr ()"
  by (simp_all add: eret_def ethrow_def lift_def emit_def)

lemma logInteraction_types:
  "interactionTypes (snd (logInteraction env ty sid (JObj kvs)))
   = (if appendFails env LOGS_SHEET = None then [JStr ty] else [])"
proof -
  obtain bm where bm: "(if nullish (case map_of kvs ''botResponse'' of None \<Rightarrow> JUndef | Some x \<Rightarrow> x) then Inr JUndef
         else get_field (case map_of kvs ''botResponse'' of None \<Rightarrow> JUndef | Some x \<Rightarrow> x) ''message'') = Inr bm"
    by (cases "case map_of kvs ''botResponse'' of None \<Rightarrow> JUndef | Some x \<Rightarrow> x")
       (auto simp: nullish_def get_field_def)
  show ?thesis
    unfolding logInteraction_def
    by (simp add: get_field_def bm appendData_def snd_ecatch cell_def
             split: option.splits)
qed


lemma logInteraction_fst: "fst (logInteraction env ty sid d) = Inr ()"
  using logInteraction_total[of env ty sid d] by auto

lemma ebind_of_fst: "fst m = Inr x \<Longrightarrow> ebind m f = (fst (f x), snd m @ snd (f x))"
  by (cases m) (simp add: ebind_pair_Inr)

lemma handleStaticResponse_eq:
  "handleStaticResponse env opt sid
   = (Inr (JObj [(''success'', JBool True), (''type'', JStr ''static''), (''title'', title opt),
                 (''message'', response opt), (''showMenu'', JBool (returnToMenu opt)),
                 (''timestamp'', JStr (toISOString (now env)))]),
      snd (logInteraction env ''static_response'' sid
             (JObj [(''success'', JBool True), (''type'', JStr ''static''), (''title'', title opt),
                 (''message'', response opt), (''showMenu'', JBool (returnToMenu opt)),
                 (''timestamp'', JStr (toISOString (now env)))])))"
  unfolding handleStaticResponse_def Let_def
  by (simp add: ebind_of_fst[OF logInteraction_fst] eret_def)

lemma handleStaticResponse_types:
  "interactionTypes (snd (handleStaticResponse env opt sid))
   = (if appendFails env LOGS_SHEET = None then [JStr ''static_response''] else [])"
  by (simp add: handleStaticResponse_eq logInteraction_types)

lemma handleAI_failure:
  assumes "ai (js_or (aiProvider opt) (JStr ''gemini''))
              (JObj [(''userQuery'', title opt),
                     (''context'', js_or (aiContext opt) (JStr [])),
                     (''maxTokens'', js_or (maxTokens opt) (JNum 500))]) = (Inr r, ta)"
      and "get_field r ''success'' = Inr (JBool False)"
  shows "fst (handleAIResponse ai env opt sid)
           = Inr (staticReply env opt ''Lo siento, no puedo procesar tu consulta en este momento.'')"
    and "interactionTypes (snd (handleAIResponse ai env opt sid))
           = interactionTypes ta @ (if appendFails env LOGS_SHEET = None then [JStr ''static_response''] else [])"
  using assms
  by (simp_all add: handleAIResponse_def Let_def ebind_pair_Inr handleStaticResponse_eq
        ecatch_pair_Inr staticReply_def logInteraction_types)

lemma handleAI_throw:
  assumes "ai (js_or (aiProvider opt) (JStr ''gemini''))
              (JObj [(''userQuery'', title opt),
                     (''context'', js_or (aiContext opt) (JStr [])),
                     (''maxTokens'', js_or (maxTokens opt) (JNum 500))]) = (Inl e, ta)"
  shows "fst (handleAIResponse ai env opt sid)
           = Inr (staticReply env opt ''Error en el servicio de IA. Intenta nuevamente.'')"
    and "interactionTypes (snd (handleAIResponse ai env opt sid))
           = interactionTypes ta @ (if appendFails env LOGS_SHEET = None then [JStr ''static_response''] else [])"
  using assms
  by (simp_all add: handleAIResponse_def Let_def ebind_pair_Inl handleStaticResponse_eq
        ecatch_pair_Inl staticReply_def logInteraction_types)

lemma processSelection_ai:
  assumes "findOption (getMenuConfig (menuData env)) selection = Inr (Some opt)"
      and "responseType opt = JStr ''ai''"
  shows "fst (processSelection ai env selection sid) = fst (handleAIResponse ai env opt sid)"
    and "interactionTypes (snd (processSelection ai env selection sid))
         = (if appendFails env LOGS_SHEET = None then [JStr ''menu_selection''] else [])
           @ interactionTypes (snd (handleAIResponse ai env opt sid))"
proof -
  let ?sel = "logInteraction env ''menu_selection'' sid (JObj [(''selection'', selection), (''option'', title opt)])"
  obtain ts where s: "?sel = (Inr (), ts)" using logInteraction_total by (metis old.unit.exhaust)
  have ht: "\<exists>x t. handleAIResponse ai env opt sid = (Inr x, t)"
    unfolding handleAIResponse_def
    by (rule ecatch_total) (simp add: handleStaticResponse_eq)
  then obtain x t where h: "handleAIResponse ai env opt sid = (Inr x, t)" by blast
  have ts: "interactionTypes ts = (if appendFails env LOGS_SHEET = None then [JStr ''menu_selection''] else [])"
    using logInteraction_types[of env "''menu_selection''" sid] s by (metis snd_conv)
  have "processSelection ai env selection sid = (Inr x, ts @ t)"
    using assms s h
    by (simp add: processSelection_def Let_def ebind_pair_Inr ecatch_pair_Inr)
  then show "fst (processSelection ai env selection sid) = fst (handleAIResponse ai env opt sid)"
    and "interactionTypes (snd (processSelection ai env selection sid))
         = (if appendFails env LOGS_SHEET = None then [JStr ''menu_selection''] else [])
           @ interactionTypes (snd (handleAIResponse ai env opt sid))"
    using h ts by simp_all
qed

lemma it_ebind:
  "interactionTypes (snd m) = [] \<Longrightarrow> (\<And>x. interactionTypes (snd (f x)) = [])
   \<Longrightarrow> interactionTypes (snd (ebind m f)) = []"
  by (simp add: snd_ebind split: sum.splits)

lemma it_ecatch:
  "interactionTypes (snd m) = [] \<Longrightarrow> (\<And>e. interactionTypes (snd (h e)) = [])
   \<Longrightarrow> interactionTypes (snd (ecatch m h)) = []"
  by (simp add: snd_ecatch split: sum.splits)

lemma it_if:
  "interactionTypes (snd a) = [] \<Longrightarrow> interactionTypes (snd b) = []
   \<Longrightarrow> interactionTypes (snd (if c then a else b)) = []"
  by simp

lemma it_getProperty [simp]: "interactionTypes (snd (getProperty env k)) = []"
  by (simp add: getProperty_def split: sum.splits)

lemma it_urlFetch [simp]: "interactionTypes (snd (urlFetch env u)) = []"
  by (simp add: urlFetch_def snd_ebind)

lemma it_callGemini: "interactionTypes (snd (callGemini env c)) = []"
  unfolding callGemini_def
  by (intro it_ecatch it_ebind it_if) simp_all

lemma it_callClaude: "interactionTypes (snd (callClaude env c)) = []"
  unfolding callClaude_def
  by (intro it_ecatch it_ebind it_if) simp_all

lemma it_generateResponse: "interactionTypes (snd (generateResponse env p c)) = []"
  unfolding generateResponse_def
  by (intro it_ecatch it_if it_callGemini it_callClaude) simp_all


text \<open>
  C5. Let the selection find an option of type \<^verbatim>\<open>'ai'\<close>, and let the AI gateway, called
  with the option's provider and context, throw or return an object with
  \<^verbatim>\<open>success: false\<close>. Then \<open>processSelection\<close> returns the response of type
  \<^verbatim>\<open>'static'\<close> whose message is the option's \<^verbatim>\<open>fallbackResponse\<close> when that is set and
  a fixed apology otherwise, and the rows it appends to the log are typed
  \<^verbatim>\<open>menu_selection\<close> and \<^verbatim>\<open>static_response\<close> (when appending works), around whatever the
  gateway itself logged; \<open>generateResponse\<close> logs nothing, so no \<^verbatim>\<open>ai_response\<close> row
  is written.
\<close>

theorem ai_failure_falls_back_to_static:
  "(findOption (getMenuConfig (menuData env)) selection = Inr (Some opt)
    \<and> responseType opt = JStr ''ai''
    \<and> ai (js_or (aiProvider opt) (JStr ''gemini''))
          (JObj [(''userQuery'', title opt),
                 (''context'', js_or (aiContext opt) (JStr [])),
                 (''maxTokens'', js_or (maxTokens opt) (JNum 500))]) = (outcome, ta)
    \<and> (outcome = Inl e \<or> outcome = Inr r \<and> get_field r ''success'' = Inr (JBool False))
    \<longrightarrow> fst (processSelection ai env selection sid)
          = Inr (JObj [(''success'', JBool True),
                       (''type'', JStr ''static''),
                       (''title'', title opt),
                       (''message'',
                          js_or (fallbackResponse opt)
                            (JStr (if outcome = Inl e
                                   then ''Error en el servicio de IA. Intenta nuevamente.''
                                   else ''Lo siento, no puedo procesar tu consulta en este momento.''))),
                       (''showMenu'', JBool (returnToMenu opt)),
                       (''timestamp'', JStr (toISOString (now env)))])
      \<and> interactionTypes (snd (processSelection ai env selection sid))
          = (if appendFails env LOGS_SHEET = None then [JStr ''menu_selection''] else [])
            @ interactionTypes ta
            @ (if appendFails env LOGS_SHEET = None then [JStr ''static_response''] else []))
   \<and> interactionTypes (snd (generateResponse env provider context)) = []"
proof (intro conjI impI)
  show "interactionTypes (snd (generateResponse env provider context)) = []"
    by (rule it_generateResponse)
next
  assume h: "findOption (getMenuConfig (menuData env)) selection = Inr (Some opt)
    \<and> responseType opt = JStr ''ai''
    \<and> ai (js_or (aiProvider opt) (JStr ''gemini''))
          (JObj [(''userQuery'', title opt),
                 (''context'', js_or (aiContext opt) (JStr [])),
                 (''maxTokens'', js_or (maxTokens opt) (JNum 500))]) = (outcome, ta)
    \<and> (outcome = Inl e \<or> outcome = Inr r \<and> get_field r ''success'' = Inr (JBool False))"
  then have p: "fst (processSelection ai env selection sid) = fst (handleAIResponse ai env opt sid)"
    "interactionTypes (snd (processSelection ai env selection sid))
         = (if appendFails env LOGS_SHEET = None then [JStr ''menu_selection''] else [])
           @ interactionTypes (snd (handleAIResponse ai env opt sid))"
    using processSelection_ai by blast+
  from h consider (thr) "outcome = Inl e" | (fail) "outcome = Inr r" "get_field r ''success'' = Inr (JBool False)"
    by blast
  then have "fst (handleAIResponse ai env opt sid)
          = Inr (staticReply env opt (if outcome = Inl e
                                   then ''Error en el servicio de IA. Intenta nuevamente.''
                                   else ''Lo siento, no puedo procesar tu consulta en este momento.''))
     \<and> interactionTypes (snd (handleAIResponse ai env opt sid))
          = interactionTypes ta @ (if appendFails env LOGS_SHEET = None then [JStr ''static_response''] else [])"
  proof cases
    case thr
    then show ?thesis using h handleAI_throw[of ai opt e ta env sid] by simp
  next
    case fail
    then show ?thesis using h handleAI_failure[of ai opt r ta env sid] by simp
  qed
  then show "fst (processSelection ai env selection sid)
          = Inr (JObj [(''success'', JBool True),
                       (''type'', JStr ''static''),
                       (''title'', title opt),
                       (''message'',
                          js_or (fallbackResponse opt)
                            (JStr (if outcome = Inl e
                                   then ''Error en el servicio de IA. Intenta nuevamente.''
                                   else ''Lo siento, no puedo procesar tu consulta en este momento.''))),
                       (''showMenu'', JBool (returnToMenu opt)),
                       (''timestamp'', JStr (toISOString (now env)))])"
    and "interactionTypes (snd (processSelection ai env selection sid))
          = (if appendFails env LOGS_SHEET = None then [JStr ''menu_selection''] else [])
            @ interactionTypes ta
            @ (if appendFails env LOGS_SHEET = None then [JStr ''static_response''] else [])"
    using p by (simp_all add: staticReply_def)
qed




lemma fe_getProperty [simp]: "fetched (snd (getProperty env k)) = []"
  by (simp add: getProperty_def split: sum.splits)

lemma fe_urlFetch [simp]: "fetched (snd (urlFetch env u)) = [u]"
  by (simp add: urlFetch_def snd_ebind)

lemma fe_appendData [simp]: "fetched (snd (appendData env s r)) = []"
  by (simp add: appendData_def split: option.splits)

lemma fe_logError [simp]: "fetched (snd (logError env operation e c)) = []"
  by (simp add: logError_def Let_def snd_ecatch snd_ebind split: sum.splits)



lemma getValidAccessToken_total: "\<exists>x t. getValidAccessToken env = (Inr x, t)"
  unfolding getValidAccessToken_def by (rule ecatch_total) (simp add: eret_def)









lemma demo_props:
  "scriptProperties demoEnv = Inr (map_of [(''SYSTEM_INITIALIZED'', ''true''),
                     (''ML_ACCESS_TOKEN'', ''APP_USR-1''),
                     (''ML_ACCESS_TOKEN_FECHA_EXPIRA'', ''2024-01-15T12:00:00.000Z'')])"
  by (simp add: demoEnv_def)


lemma demo_initialized: "ensureInitialized demoEnv = (Inr (), [])"
  by (simp add: ensureInitialized_def isSystemInitialized_def getProperty_def demoEnv_def eret_def ebind_pair_Inr)

lemma demo_dispatch_null: "dispatch demoEnv JNull = (Inl (TypeError ''Cannot read properties of null (reading action)''), [])"
  by (simp add: dispatch_def demo_initialized ebind_pair_Inr get_field_def ethrow_def)

text \<open>
  On the sample platform: \<^verbatim>\<open>null\<close> parameters give the error object, and the
  unknown action \<^verbatim>\<open>'help'\<close> gives the menu.
\<close>

theorem handleChatbotRequest_never_throws_witness:
  "fst (handleChatbotRequest demoEnv JNull)
     = Inr (JObj [(''success'', JBool False),
                  (''error'', JStr (''Lo siento, ocurri'' @ [CHR 0xC3] @ [CHR 0xB3] @ '' un error. Por favor intenta nuevamente.'')),
                  (''timestamp'', JStr ''2024-01-15T13:30:00.000Z'')])
   \<and> handleChatbotRequest demoEnv (JObj [(''action'', JStr ''help'')])
     = (fst (getMenu demoEnv), [] @ snd (getMenu demoEnv))"
proof -
  have a: "fst (handleChatbotRequest demoEnv JNull)
     = Inr (JObj [(''success'', JBool False),
                  (''error'', JStr (''Lo siento, ocurri'' @ [CHR 0xC3] @ [CHR 0xB3] @ '' un error. Por favor intenta nuevamente.'')),
                  (''timestamp'', JStr (toISOString (now demoEnv)))])"
    using handleChatbotRequest_never_throws[of demoEnv JNull "TypeError ''Cannot read properties of null (reading action)''" "[]"]
      demo_dispatch_null by simp
  have b: "handleChatbotRequest demoEnv (JObj [(''action'', JStr ''help'')])
     = (fst (getMenu demoEnv), [] @ snd (getMenu demoEnv))"
    using handleChatbotRequest_never_throws[of demoEnv "JObj [(''action'', JStr ''help'')]" _ _ "[]" "JStr ''help''"]
      demo_initialized by (simp add: get_field_def)
  show ?thesis using a b by (simp add: demoEnv_def)
qed

lemma digits_of_small: "n < 10 \<Longrightarrow> digits_of n = [char_of (48 + n)]"
  by (simp add: digits_of.simps)

lemma demo_menu:
  "getMenuConfig (menuData demoEnv) = map rowToItem (take 4 sampleData)"
  by (simp add: demoEnv_def getMenuConfig_def sampleData_def rowToItem_def cell_def js_and_def js_or_def)

lemma demo_find1:
  "findOption (getMenuConfig (menuData demoEnv)) (JStr ''1'') = Inr (Some (rowToItem (sampleData ! 0)))"
  by (simp add: demo_menu sampleData_def nullish_def rowToItem_def cell_def js_or_def show_int_def digits_of_small char_of_eq_iff)

lemma demo_gemini:
  "generateResponse demoEnv (JStr ''gemini'') c
   = (Inr (JObj [(''success'', JBool False),
                 (''error'', JStr ''Gemini API error: Gemini API key not configured''),
                 (''provider'', JStr ''gemini'')]), [])"
  by (simp add: generateResponse_def callGemini_def getProperty_def demoEnv_def eret_def ethrow_def
        ebind_pair_Inr ecatch_pair_Inl ecatch_pair_Inr)

text \<open>
  On the sample platform the Gemini key is not configured: selecting option 1 gives its
  fallback text, logged as \<^verbatim>\<open>menu_selection\<close> and \<^verbatim>\<open>static_response\<close>.
\<close>

theorem ai_failure_falls_back_to_static_witness:
  "fst (processSelection (generateResponse demoEnv) demoEnv (JStr ''1'') (JStr ''s1''))
     = Inr (JObj [(''success'', JBool True),
                  (''type'', JStr ''static''),
                  (''title'', JStr ''Estado de mi pedido''),
                  (''message'', JStr ''Consulta el estado de tu pedido en tu cuenta''),
                  (''showMenu'', JBool True),
                  (''timestamp'', JStr ''2024-01-15T13:30:00.000Z'')])
   \<and> interactionTypes (snd (processSelection (generateResponse demoEnv) demoEnv (JStr ''1'') (JStr ''s1'')))
     = [JStr ''menu_selection'', JStr ''static_response'']"
proof -
  let ?opt = "rowToItem (sampleData ! 0)"
  have o: "responseType ?opt = JStr ''ai''" "aiProvider ?opt = JStr ''gemini''"
    "title ?opt = JStr ''Estado de mi pedido''"
    "fallbackResponse ?opt = JStr ''Consulta el estado de tu pedido en tu cuenta''"
    "returnToMenu ?opt"
    by (simp_all add: sampleData_def rowToItem_def cell_def)
  have g: "generateResponse demoEnv (js_or (aiProvider ?opt) (JStr ''gemini''))
          (JObj [(''userQuery'', title ?opt),
                 (''context'', js_or (aiContext ?opt) (JStr [])),
                 (''maxTokens'', js_or (maxTokens ?opt) (JNum 500))])
      = (Inr (JObj [(''success'', JBool False),
                 (''error'', JStr ''Gemini API error: Gemini API key not configured''),
                 (''provider'', JStr ''gemini'')]), [])"
    using demo_gemini by (simp add: o js_or_def)
  have f: "get_field (JObj [(''success'', JBool False),
                 (''error'', JStr ''Gemini API error: Gemini API key not configured''),
                 (''provider'', JStr ''gemini'')]) ''success'' = Inr (JBool False)"
    by (simp add: get_field_def)
  have ap: "appendFails demoEnv LOGS_SHEET = None" "toISOString (now demoEnv) = ''2024-01-15T13:30:00.000Z''"
    by (simp_all add: demoEnv_def)
  show ?thesis
    using ai_failure_falls_back_to_static[of demoEnv "JStr ''1''" ?opt "generateResponse demoEnv"
              "Inr (JObj [(''success'', JBool False),
                 (''error'', JStr ''Gemini API error: Gemini API key not configured''),
                 (''provider'', JStr ''gemini'')])" "[]" "Error []"
              "JObj [(''success'', JBool False),
                 (''error'', JStr ''Gemini API error: Gemini API key not configured''),
                 (''provider'', JStr ''gemini'')]" "JStr ''s1''"]
      demo_find1 g f
    by (simp add: o ap js_or_def)
qed

subsection \<open>Responses without timestamp\<close>

lemma demo_find99:
  "findOption (getMenuConfig (menuData demoEnv)) (JStr ''99'') = Inr None"
  by (simp add: demo_menu sampleData_def nullish_def rowToItem_def cell_def js_or_def show_int_def digits_of_small char_of_eq_iff)

text \<open>
  C2 (the code departs from the claim). The claim has a timestamp in every response of
  the dispatcher. The selection \<^verbatim>\<open>'99'\<close> matches no option of the sample menu, and the
  dispatcher returns \<^verbatim>\<open>{success: false, message, showMenu: true}\<close>: there is no
  \<^verbatim>\<open>timestamp\<close> field.
\<close>

theorem processSelection_failure_has_no_timestamp:
  "handleChatbotRequest demoEnv
     (JObj [(''action'', JStr ''processSelection''), (''userInput'', JStr ''99''), (''sessionId'', JStr ''s1'')])
   = (Inr (JObj [(''success'', JBool False),
                 (''message'', JStr (''Selecci'' @ [CHR 0xF3] @ ''n inv'' @ [CHR 0xE1] @ ''lida. Por favor elige una opci'' @ [CHR 0xF3] @ ''n del men'' @ [CHR 0xFA] @ ''.'')),
                 (''showMenu'', JBool True)]), [])
   \<and> get_field (JObj [(''success'', JBool False),
                 (''message'', JStr (''Selecci'' @ [CHR 0xF3] @ ''n inv'' @ [CHR 0xE1] @ ''lida. Por favor elige una opci'' @ [CHR 0xF3] @ ''n del men'' @ [CHR 0xFA] @ ''.'')),
                 (''showMenu'', JBool True)]) ''timestamp'' = Inr JUndef"
  by (simp add: handleChatbotRequest_def dispatch_def demo_initialized get_field_def
        processSelection_def demo_find99 invalidSelection_def eret_def ecatch_pair_Inr ebind_pair_Inr)

subsection \<open>Product ids\<close>













subsection \<open>Analytics\<close>











end
